theory Spec2Isabelle
  imports Main "HOL-Library.Word" "HOL-Library.AList" "HOL-Library.Sublist"
begin

section \<open>LingStorage SDK client: a shallow embedding\<close>

text \<open>
  The client of the LingStorage SDK (package \<open>lingstorage\<close>, file client.go in its full
  revision) is embedded function by function. Go's \<open>int\<close> and \<open>int64\<close> counters are \<open>int\<close>;
  a \<open>time.Duration\<close> is its count of nanoseconds, and the one product the client computes on
  durations wraps around at 64 bits as Go's does. A struct is a record, an \<open>error\<close> is a
  value, a nil-pointer dereference is the result \<open>Panic\<close>. What the Go standard library and
  the outside world decide (the transport and the server behind it, the file system, URL
  parsing, JSON decoding) is the record \<open>env\<close>, over which every theorem quantifies. What
  a call changes or emits (the shared \<open>Config\<close> object, the requests handed to the
  transport, the sleeps, the observer invocations) is the record \<open>world\<close>.
\<close>

subsection \<open>Standard-library helpers\<close>

text \<open>\<open>strconv.Itoa\<close>: decimal digits, with a minus sign for negative numbers.\<close>

definition digit_char :: "nat \<Rightarrow> char" where
  "digit_char d = ''0123456789'' ! (d mod 10)"

fun fmtInt :: "nat \<Rightarrow> string" where
  "fmtInt n = (if n < 10 then [digit_char n] else fmtInt (n div 10) @ [digit_char (n mod 10)])"

declare fmtInt.simps [simp del]

definition Itoa :: "int \<Rightarrow> string" where
  "Itoa i = (if i < 0 then CHR ''-'' # fmtInt (nat (- i)) else fmtInt (nat i))"

text \<open>\<open>strings.TrimRight(s, "/")\<close>: drop every trailing slash.\<close>

definition TrimRight :: "string \<Rightarrow> string" where
  "TrimRight s = rev (dropWhile (\<lambda>c. c = CHR ''/'') (rev s))"

text \<open>\<open>filepath.Base\<close> on a slash-separated path: the last element, with trailing slashes
  removed first; \<open>"."\<close> for the empty path and \<open>"/"\<close> for a path of slashes only.\<close>

definition Base :: "string \<Rightarrow> string" where
  "Base path =
     (if path = [] then ''.''
      else let p = TrimRight path;
               l = rev (takeWhile (\<lambda>c. c \<noteq> CHR ''/'') (rev p))
           in if l = [] then ''/'' else l)"

text \<open>\<open>time.Duration\<close> constants, in nanoseconds.\<close>

definition Second :: int where
  "Second = 1000000000"

text \<open>\<open>time.Duration(n) * time.Second\<close>: a product of two int64 values, wrapping around.\<close>

definition seconds :: "int \<Rightarrow> int" where
  "seconds n = sint (word_of_int n * word_of_int Second :: 64 word)"

text \<open>\<open>time.Duration.String\<close>, transcribed from Go's time package. \<open>fmtFrac\<close> peels
  \<open>prec\<close> decimal digits off \<open>v\<close>, printing them without trailing zeros and with the
  decimal point only if a digit is printed; it returns the text and the remaining value.\<close>

fun fmtFrac :: "nat \<Rightarrow> nat \<Rightarrow> bool \<Rightarrow> string \<Rightarrow> string \<times> nat" where
  "fmtFrac 0 v pr acc = ((if pr then CHR ''.'' # acc else acc), v)"
| "fmtFrac (Suc k) v pr acc =
     (let digit = v mod 10; pr' = (pr \<or> digit \<noteq> 0)
      in fmtFrac k (v div 10) pr' (if pr' then digit_char digit # acc else acc))"

definition Duration_String :: "int \<Rightarrow> string" where
  "Duration_String d =
     (let u = nat \<bar>d\<bar>;
          s = (if u < 1000000000 then
                 (if u = 0 then ''0s''
                  else if u < 1000 then fmtInt u @ ''ns''
                  else if u < 1000000 then
                    (case fmtFrac 3 u False [] of (f, v) \<Rightarrow>
                       fmtInt v @ f @ [CHR 0xC2, CHR 0xB5] @ ''s'')
                  else (case fmtFrac 6 u False [] of (f, v) \<Rightarrow> fmtInt v @ f @ ''ms''))
               else
                 (case fmtFrac 9 u False [] of (f, v) \<Rightarrow>
                    (if 0 < v div 60 then
                       (if 0 < v div 60 div 60 then fmtInt (v div 60 div 60) @ ''h'' else [])
                       @ fmtInt (v div 60 mod 60) @ ''m''
                     else [])
                    @ fmtInt (v mod 60) @ f @ ''s''))
      in if d < 0 then CHR ''-'' # s else s)"

subsection \<open>Data model\<close>

record Config =
  BaseURL :: string
  APIKey :: string
  APISecret :: string
  Timeout :: int
  RetryCount :: int
  UserAgent :: string

text \<open>Modelled from the spec: package \<open>constants\<close> is not among the sources. The spec
  names the headers \<open>X-API-Key\<close>, \<open>X-API-Secret\<close>, \<open>User-Agent\<close> and \<open>Content-Type\<close> and
  "a fixed user-agent string", whose value \<open>TestNewClient\<close> asserts.\<close>

definition DEFAULT_USER_AGENT :: string where
  "DEFAULT_USER_AGENT = ''LingStorage-SDK/1.0.0''"

definition USER_AGENT :: string where
  "USER_AGENT = ''User-Agent''"

definition XAPIKEY :: string where
  "XAPIKEY = ''X-API-Key''"

definition XAPISECRET :: string where
  "XAPISECRET = ''X-API-Secret''"

definition CONETENT_TYPE :: string where
  "CONETENT_TYPE = ''Content-Type''"

text \<open>The client holds a pointer to the caller's \<open>Config\<close> (field \<open>config\<close> of the world
  below is that one object) and an \<open>http.Client\<close> of which only the timeout is set.\<close>

record Client =
  httpClient_Timeout :: int

record UploadResult =
  Key :: string
  Bucket :: string
  Filename :: string
  Size :: int
  OriginalSize :: int
  Compressed :: bool
  Watermarked :: bool
  URL :: string

record UploadError =
  File :: string
  Error :: string

record BatchUploadResult =
  Success :: "UploadResult list"
  Failed :: "UploadError list"
  Total :: int

record APIError =
  StatusCode :: int
  Message :: string
  Details :: string

text \<open>An \<open>error\<close> is either an \<open>*APIError\<close> or an error made by \<open>fmt.Errorf\<close> (or handed
  over by the library), of which only the message matters.\<close>

datatype error = API APIError | Plain string

text \<open>\<open>(*APIError).Error\<close> and the message of the other errors.\<close>

fun Error_string :: "error \<Rightarrow> string" where
  "Error_string (API a) =
     ''ling storage api error '' @ Itoa (APIError.StatusCode a) @ '': '' @ Message a"
| "Error_string (Plain m) = m"

text \<open>What a call yields: a value with a nil error, an error, or a run-time panic.\<close>

datatype 'a result = Ok 'a | Fail error | Panic

subsection \<open>Requests, responses and the environment\<close>

datatype part = FormFile string string string | FormField string string

datatype jsonval = JString string | JBool bool

datatype body = NoBody | Multipart "part list" | JSON "(string \<times> jsonval) list"

text \<open>An \<open>*http.Request\<close>: the method, the URL string given to \<open>http.NewRequest\<close>, the
  \<open>url.Values\<close> of its query (key to list of values), the headers and the body. A multipart
  body is the list of its parts in the order written (a file part has field name, file name
  and content); a JSON body is the list of its members.\<close>

record request =
  Method :: string
  Url :: string
  Query :: "(string \<times> string list) list"
  Header :: "(string \<times> string) list"
  Body :: body

text \<open>An \<open>*http.Response\<close>: the status code and the body, \<open>Inl\<close> when reading it fails.\<close>

record response =
  StatusCode :: int
  RespBody :: "string + string"

datatype outcome = TransportError string | Response response

text \<open>An \<open>io.Reader\<close> as the results of its successive \<open>Read\<close> calls: the chunks returned
  with a nil error, then one last chunk (often empty) returned with \<open>io.EOF\<close> or with
  another error. \<open>Seeker\<close> is \<open>Some n\<close> when the reader is also an \<open>io.Seeker\<close> whose
  \<open>Seek(0, io.SeekEnd)\<close> returns \<open>n\<close>.\<close>

datatype read_end = EOF | ReadError string

record reader =
  Chunks :: "string list"
  Last :: string
  End :: read_end
  Seeker :: "int option"

text \<open>An open file: what \<open>Stat\<close> reports as its size (\<open>Inl\<close> when \<open>Stat\<close> fails) and the
  file as a reader.\<close>

record osFile =
  Stat :: "string + int"
  Contents :: reader

text \<open>The \<open>{Success, Data}\<close> struct the read operations decode into, and its extension by
  \<open>Message\<close>, \<open>Code\<close> and \<open>Msg\<close> that \<open>uploadReader\<close> decodes into.\<close>

record 'd apiResp =
  Success :: bool
  Data :: 'd

record 'd uploadApiResp = "'d apiResp" +
  Message :: string
  Code :: int
  Msg :: string

record FileInfo =
  Key :: string
  Size :: int
  LastModified :: int
  ETag :: string
  ContentType :: string

record ListFilesResult =
  Files :: "FileInfo list"
  Directories :: "string list"
  NextMarker :: string
  IsTruncated :: bool

text \<open>The environment. \<open>Do n r\<close> is what \<open>httpClient.Do\<close> returns for request \<open>r\<close> when
  \<open>n\<close> requests have been handed to the transport before it. \<open>Open\<close> is \<open>os.Open\<close>.
  \<open>ParseURL\<close> is the URL parsing of \<open>http.NewRequest\<close>: \<open>Inl\<close> when it fails, else
  the \<open>url.Values\<close> of the query the URL string carries. \<open>Boundary\<close> is the boundary a
  \<open>multipart.Writer\<close> picks. The rest is \<open>encoding/json\<close> decoding a body into each of
  the structs the client uses, \<open>Inl\<close> with the decoder's message when it fails.\<close>

record env =
  Do :: "nat \<Rightarrow> request \<Rightarrow> outcome"
  Open :: "string \<Rightarrow> string + osFile"
  ParseURL :: "string \<Rightarrow> string + (string \<times> string list) list"
  Boundary :: string
  UnmarshalAPIError :: "string \<Rightarrow> string + APIError"
  UnmarshalUpload :: "string \<Rightarrow> string + UploadResult uploadApiResp"
  DecodeURL :: "string \<Rightarrow> string + string apiResp"
  DecodeFileInfo :: "string \<Rightarrow> string + FileInfo apiResp"
  DecodeListFiles :: "string \<Rightarrow> string + ListFilesResult apiResp"
  DecodeBuckets :: "string \<Rightarrow> string + string list apiResp"
  DecodeDomains :: "string \<Rightarrow> string + string list apiResp"

text \<open>The world: the \<open>Config\<close> object shared by the caller and the client, the requests
  handed to the transport so far, the durations slept, and the invocations of the byte
  progress observer (uploaded, total) and of the batch observer (completed, total, current).\<close>

record world =
  config :: Config
  sent :: "request list"
  slept :: "int list"
  fileProgress :: "(int \<times> int) list"
  batchProgress :: "(int \<times> int \<times> string) list"

subsection \<open>NewClient\<close>

definition NewClient :: "world \<Rightarrow> Client \<times> world" where
  "NewClient w =
     (let c0 = config w;
          c1 = (if Timeout c0 = 0 then c0\<lparr>Timeout := seconds 30\<rparr> else c0);
          c2 = (if RetryCount c1 = 0 then c1\<lparr>RetryCount := 3\<rparr> else c1);
          c3 = (if UserAgent c2 = [] then c2\<lparr>UserAgent := DEFAULT_USER_AGENT\<rparr> else c2)
      in (\<lparr>httpClient_Timeout = Timeout c3\<rparr>, w\<lparr>config := c3\<rparr>))"


subsection \<open>Request structs\<close>

text \<open>A callback field (\<open>OnProgress\<close>, \<open>OnFileProgress\<close>) is \<open>True\<close> when the caller
  supplies a function and \<open>False\<close> when it is nil; the world records its invocations.\<close>

record UploadRequest =
  FilePath :: string
  Bucket :: string
  Key :: string
  AllowedTypes :: "string list"
  Compress :: bool
  Quality :: int
  Watermark :: bool
  WatermarkText :: string
  WatermarkPosition :: string
  OnProgress :: bool

record UploadBytesRequest =
  Data :: string
  Filename :: string
  Bucket :: string
  Key :: string
  AllowedTypes :: "string list"
  Compress :: bool
  Quality :: int
  Watermark :: bool
  WatermarkText :: string
  WatermarkPosition :: string
  OnProgress :: bool

record BatchUploadRequest =
  Files :: "string list"
  Bucket :: string
  KeyPrefix :: string
  AllowedTypes :: "string list"
  Compress :: bool
  Quality :: int
  Watermark :: bool
  WatermarkText :: string
  WatermarkPosition :: string
  OnProgress :: bool
  OnFileProgress :: bool

record UploadFromReaderRequest =
  Reader :: reader
  Filename :: string
  Size :: int
  Bucket :: string
  Key :: string
  AllowedTypes :: "string list"
  Compress :: bool
  Quality :: int
  Watermark :: bool
  WatermarkText :: string
  WatermarkPosition :: string
  OnProgress :: bool

record ListFilesRequest =
  Bucket :: string
  Prefix :: string
  Marker :: string
  Delimiter :: string
  Limit :: int

record CreateBucketRequest =
  BucketName :: string
  Region :: string

record CopyFileRequest =
  SrcBucket :: string
  SrcKey :: string
  DestBucket :: string
  DestKey :: string

record MoveFileRequest =
  SrcBucket :: string
  SrcKey :: string
  DestBucket :: string
  DestKey :: string

record SetBucketPrivateRequest =
  BucketName :: string
  IsPrivate :: bool

subsection \<open>Building requests\<close>

definition NewRequest :: "env \<Rightarrow> string \<Rightarrow> string \<Rightarrow> body \<Rightarrow> string + request" where
  "NewRequest e method url b =
     (case ParseURL e url of
        Inl m \<Rightarrow> Inl m
      | Inr q \<Rightarrow> Inr \<lparr>Method = method, Url = url, Query = q, Header = [], Body = b\<rparr>)"

text \<open>\<open>Header.Set\<close>, \<open>url.Values.Set\<close> and \<open>url.Values.Add\<close>.\<close>

definition Header_Set :: "string \<Rightarrow> string \<Rightarrow> request \<Rightarrow> request" where
  "Header_Set k v r = r\<lparr>Header := AList.update k v (Header r)\<rparr>"

definition Values_Set :: "string \<Rightarrow> string \<Rightarrow> (string \<times> string list) list \<Rightarrow> (string \<times> string list) list" where
  "Values_Set k v q = AList.update k [v] q"

definition Values_Get :: "(string \<times> string list) list \<Rightarrow> string \<Rightarrow> string list" where
  "Values_Get q k = (case map_of q k of None \<Rightarrow> [] | Some vs \<Rightarrow> vs)"

definition Values_Add :: "string \<Rightarrow> string \<Rightarrow> (string \<times> string list) list \<Rightarrow> (string \<times> string list) list" where
  "Values_Add k v q = AList.update k (Values_Get q k @ [v]) q"

text \<open>The three headers every operation sets, in the order of the source: the user agent
  always, the key and the secret only when non-empty.\<close>

definition setCommonHeaders :: "Config \<Rightarrow> request \<Rightarrow> request" where
  "setCommonHeaders c r =
     (let r1 = Header_Set USER_AGENT (UserAgent c) r;
          r2 = (if APIKey c \<noteq> [] then Header_Set XAPIKEY (APIKey c) r1 else r1)
      in if APISecret c \<noteq> [] then Header_Set XAPISECRET (APISecret c) r2 else r2)"

subsection \<open>The retry loop\<close>

text \<open>The loop \<open>for i := 0; i <= c.config.RetryCount; i++\<close> that \<open>doRequestWithRetry\<close>,
  \<open>uploadReader\<close> and \<open>Ping\<close> each contain, word for word. Its state is \<open>i\<close> and the
  pair \<open>(resp, lastErr)\<close>, here the outcome of the latest attempt (\<open>None\<close> before the
  first, when both are nil).\<close>

fun retryable :: "outcome \<Rightarrow> bool" where
  "retryable (TransportError m) = True"
| "retryable (Response resp) = (\<not> response.StatusCode resp < 500)"

function retryLoop :: "env \<Rightarrow> request \<Rightarrow> int \<Rightarrow> outcome option \<Rightarrow> world \<Rightarrow> outcome option \<times> world" where
  "retryLoop e httpReq i prev w =
     (if i \<le> RetryCount (config w) then
        (let out = Do e (length (sent w)) httpReq;
             w1 = w\<lparr>sent := sent w @ [httpReq]\<rparr>
         in if \<not> retryable out then (Some out, w1)
            else retryLoop e httpReq (i + 1) (Some out)
                   (if i < RetryCount (config w1)
                    then w1\<lparr>slept := slept w1 @ [seconds (i + 1)]\<rparr> else w1))
      else (prev, w))"
  by pat_completeness auto
termination
  by (relation "measure (\<lambda>(e, httpReq, i, prev, w). nat (RetryCount (config w) + 1 - i))") auto

declare retryLoop.simps [simp del]

definition doRequestWithRetry :: "env \<Rightarrow> request \<Rightarrow> world \<Rightarrow> (error + response option) \<times> world" where
  "doRequestWithRetry e req w =
     (case retryLoop e req 0 None w of
        (Some (TransportError m), w') \<Rightarrow>
          (Inl (Plain (''request failed after '' @ Itoa (RetryCount (config w')) @ '' retries: '' @ m)), w')
      | (Some (Response resp), w') \<Rightarrow> (Inr (Some resp), w')
      | (None, w') \<Rightarrow> (Inr None, w'))"

definition handleErrorResponse :: "env \<Rightarrow> response \<Rightarrow> error" where
  "handleErrorResponse e resp =
     (case RespBody resp of
        Inl m \<Rightarrow> Plain (''failed to read error response: '' @ m)
      | Inr respBody \<Rightarrow>
          (case UnmarshalAPIError e respBody of
             Inr apiErr \<Rightarrow> API (apiErr\<lparr>APIError.StatusCode := response.StatusCode resp\<rparr>)
           | Inl m \<Rightarrow> API \<lparr>APIError.StatusCode = response.StatusCode resp,
                           Message = respBody, Details = []\<rparr>))"

text \<open>The lines that follow the request construction in each of the eleven operations that
  call \<open>doRequestWithRetry\<close>: return its error; \<open>defer resp.Body.Close()\<close>, which
  dereferences \<open>resp\<close> and panics when it is nil; hand a status other than 200 to
  \<open>handleErrorResponse\<close>.\<close>

definition sendExpect200 :: "env \<Rightarrow> request \<Rightarrow> world \<Rightarrow> response result \<times> world" where
  "sendExpect200 e httpReq w =
     (case doRequestWithRetry e httpReq w of
        (Inl err, w') \<Rightarrow> (Fail err, w')
      | (Inr None, w') \<Rightarrow> (Panic, w')
      | (Inr (Some resp), w') \<Rightarrow>
          (if response.StatusCode resp \<noteq> 200 then (Fail (handleErrorResponse e resp), w')
           else (Ok resp, w')))"

fun andThen :: "'a result \<Rightarrow> ('a \<Rightarrow> 'b result) \<Rightarrow> 'b result" where
  "andThen (Ok x) f = f x"
| "andThen (Fail err) f = Fail err"
| "andThen Panic f = Panic"

text \<open>\<open>json.NewDecoder(resp.Body).Decode\<close>: a body that cannot be read is a decoding
  error too.\<close>

definition Decode :: "(string \<Rightarrow> string + 'a) \<Rightarrow> response \<Rightarrow> string + 'a" where
  "Decode dec resp = (case RespBody resp of Inl m \<Rightarrow> Inl m | Inr b \<Rightarrow> dec b)"


subsection \<open>Uploads\<close>

text \<open>\<open>progressReader\<close> and its \<open>Read\<close>: \<open>n\<close> is the count the wrapped reader returns.\<close>

record progressReader =
  reader :: reader
  total :: int
  read :: int
  callback :: bool

definition progressReader_Read :: "progressReader \<Rightarrow> nat \<Rightarrow> world \<Rightarrow> progressReader \<times> world" where
  "progressReader_Read pr n w =
     (let pr' = pr\<lparr>read := read pr + int n\<rparr>
      in (pr', if callback pr'
               then w\<lparr>fileProgress := fileProgress w @ [(read pr', total pr')]\<rparr> else w))"

text \<open>The \<open>io.Reader\<close> handed to \<open>uploadReader\<close>: the source itself or a
  \<open>progressReader\<close> around it.\<close>

datatype io_Reader = Raw reader | Progress progressReader

text \<open>\<open>io.Copy\<close> into the form-file part: it reads until a \<open>Read\<close> returns an error,
  writes every chunk read, and reports an error other than \<open>io.EOF\<close>. Through a
  \<open>progressReader\<close> every one of these reads goes through \<open>progressReader_Read\<close>.\<close>

fun readAll :: "progressReader \<Rightarrow> string list \<Rightarrow> world \<Rightarrow> world" where
  "readAll pr [] w = w"
| "readAll pr (c # cs) w =
     (case progressReader_Read pr (length c) w of (pr', w') \<Rightarrow> readAll pr' cs w')"

definition copied :: "reader \<Rightarrow> string \<times> string option" where
  "copied r = (concat (Chunks r) @ Last r,
               (case End r of EOF \<Rightarrow> None | ReadError m \<Rightarrow> Some m))"

fun io_Copy :: "io_Reader \<Rightarrow> world \<Rightarrow> (string \<times> string option) \<times> world" where
  "io_Copy (Raw r) w = (copied r, w)"
| "io_Copy (Progress pr) w = (copied (reader pr), readAll pr (Chunks (reader pr) @ [Last (reader pr)]) w)"

text \<open>The text fields \<open>uploadReader\<close> writes after the file part.\<close>

definition formFields :: "UploadRequest \<Rightarrow> part list" where
  "formFields req =
     (if UploadRequest.Bucket req \<noteq> [] then [FormField ''bucket'' (UploadRequest.Bucket req)] else [])
     @ (if UploadRequest.Key req \<noteq> [] then [FormField ''key'' (UploadRequest.Key req)] else [])
     @ (if UploadRequest.Compress req
        then FormField ''compress'' ''true''
             # (if UploadRequest.Quality req > 0
                then [FormField ''quality'' (Itoa (UploadRequest.Quality req))] else [])
        else [])
     @ (if UploadRequest.Watermark req
        then FormField ''watermark'' ''true''
             # (if UploadRequest.WatermarkText req \<noteq> []
                then [FormField ''watermarkText'' (UploadRequest.WatermarkText req)] else [])
             @ (if UploadRequest.WatermarkPosition req \<noteq> []
                then [FormField ''watermarkPosition'' (UploadRequest.WatermarkPosition req)] else [])
        else [])"

text \<open>\<open>uploadReader\<close> up to its retry loop: the multipart body, the request, its headers
  and the \<open>allowedTypes\<close> query parameters. (\<open>CreateFormFile\<close> writes to a
  \<open>bytes.Buffer\<close> and cannot fail.)\<close>

definition uploadReader_request :: "env \<Rightarrow> io_Reader \<Rightarrow> string \<Rightarrow> UploadRequest \<Rightarrow> world \<Rightarrow> (error + request) \<times> world" where
  "uploadReader_request e rd filename req w =
     (case io_Copy rd w of
        ((content, Some m), w1) \<Rightarrow> (Inl (Plain (''failed to copy file data: '' @ m)), w1)
      | ((content, None), w1) \<Rightarrow>
          (let url = TrimRight (BaseURL (config w1)) @ ''/api/public/upload''
           in case NewRequest e ''POST'' url (Multipart (FormFile ''file'' filename content # formFields req)) of
                Inl m \<Rightarrow> (Inl (Plain (''failed to create request: '' @ m)), w1)
              | Inr httpReq \<Rightarrow>
                  (let r1 = Header_Set CONETENT_TYPE (''multipart/form-data; boundary='' @ Boundary e) httpReq;
                       r2 = setCommonHeaders (config w1) r1
                   in (Inr (if UploadRequest.AllowedTypes req \<noteq> []
                            then r2\<lparr>Query := foldl (\<lambda>q t. Values_Add ''allowedTypes'' t q) (Query r2)
                                                (UploadRequest.AllowedTypes req)\<rparr>
                            else r2), w1))))"

text \<open>\<open>uploadReader\<close> after its retry loop, on a non-nil response.\<close>

definition uploadReader_response :: "env \<Rightarrow> response \<Rightarrow> UploadResult result" where
  "uploadReader_response e resp =
     (case RespBody resp of
        Inl m \<Rightarrow> Fail (Plain (''failed to read response: '' @ m))
      | Inr respBody \<Rightarrow>
          (if response.StatusCode resp \<noteq> 200 then
             (case UnmarshalAPIError e respBody of
                Inr apiErr \<Rightarrow> Fail (API (apiErr\<lparr>APIError.StatusCode := response.StatusCode resp\<rparr>))
              | Inl m \<Rightarrow> Fail (API \<lparr>APIError.StatusCode = response.StatusCode resp,
                                     Message = respBody, Details = []\<rparr>))
           else
             (case UnmarshalUpload e respBody of
                Inl m \<Rightarrow> Fail (Plain (''failed to parse response: '' @ m))
              | Inr apiResp \<Rightarrow>
                  (let isSuccess = (apiResp.Success apiResp \<or> Code apiResp = 200)
                   in if \<not> isSuccess then
                        (let message = Message apiResp;
                             message = (if message = [] then Msg apiResp else message)
                         in Fail (API \<lparr>APIError.StatusCode = response.StatusCode resp,
                                        Message = message, Details = []\<rparr>))
                      else Ok (apiResp.Data apiResp)))))"

definition uploadReader :: "env \<Rightarrow> io_Reader \<Rightarrow> string \<Rightarrow> int \<Rightarrow> UploadRequest \<Rightarrow> world \<Rightarrow> UploadResult result \<times> world" where
  "uploadReader e rd filename sz req w =
     (case uploadReader_request e rd filename req w of
        (Inl err, w1) \<Rightarrow> (Fail err, w1)
      | (Inr httpReq, w1) \<Rightarrow>
          (case retryLoop e httpReq 0 None w1 of
             (Some (TransportError m), w2) \<Rightarrow>
               (Fail (Plain (''request failed after '' @ Itoa (RetryCount (config w2)) @ '' retries: '' @ m)), w2)
           | (None, w2) \<Rightarrow> (Panic, w2)
           | (Some (Response resp), w2) \<Rightarrow> (uploadReader_response e resp, w2)))"

text \<open>The wrapping each upload entry point does: a \<open>progressReader\<close> around the source
  when its condition holds, the source itself otherwise.\<close>

definition wrapProgress :: "bool \<Rightarrow> reader \<Rightarrow> int \<Rightarrow> io_Reader" where
  "wrapProgress cond r n =
     (if cond then Progress \<lparr>reader = r, total = n, read = 0, callback = True\<rparr> else Raw r)"

definition UploadFile :: "env \<Rightarrow> UploadRequest \<Rightarrow> world \<Rightarrow> UploadResult result \<times> world" where
  "UploadFile e req w =
     (case Open e (FilePath req) of
        Inl m \<Rightarrow> (Fail (Plain (''failed to open file: '' @ m)), w)
      | Inr f \<Rightarrow>
          (case Stat f of
             Inl m \<Rightarrow> (Fail (Plain (''failed to get file info: '' @ m)), w)
           | Inr fileSize \<Rightarrow>
               uploadReader e (wrapProgress (UploadRequest.OnProgress req) (Contents f) fileSize)
                 (Base (FilePath req)) fileSize req w))"

text \<open>\<open>UploadFromReader\<close>: the size (asked of the reader when it is a seeker and the
  given size is not positive; the errors of \<open>Seek\<close> are dropped), the inner request, the
  call.\<close>

definition UploadFromReader_size :: "UploadFromReaderRequest \<Rightarrow> int" where
  "UploadFromReader_size req =
     (let sz = UploadFromReaderRequest.Size req
      in if sz \<le> 0 then (case Seeker (Reader req) of Some n \<Rightarrow> n | None \<Rightarrow> sz) else sz)"

definition UploadFromReader_uploadReq :: "UploadFromReaderRequest \<Rightarrow> UploadRequest" where
  "UploadFromReader_uploadReq req =
     \<lparr>FilePath = [],
      UploadRequest.Bucket = UploadFromReaderRequest.Bucket req,
      UploadRequest.Key = UploadFromReaderRequest.Key req,
      UploadRequest.AllowedTypes = UploadFromReaderRequest.AllowedTypes req,
      UploadRequest.Compress = UploadFromReaderRequest.Compress req,
      UploadRequest.Quality = UploadFromReaderRequest.Quality req,
      UploadRequest.Watermark = UploadFromReaderRequest.Watermark req,
      UploadRequest.WatermarkText = UploadFromReaderRequest.WatermarkText req,
      UploadRequest.WatermarkPosition = UploadFromReaderRequest.WatermarkPosition req,
      UploadRequest.OnProgress = False\<rparr>"

definition UploadFromReader :: "env \<Rightarrow> UploadFromReaderRequest \<Rightarrow> world \<Rightarrow> UploadResult result \<times> world" where
  "UploadFromReader e req w =
     (let sz = UploadFromReader_size req
      in uploadReader e
           (wrapProgress (UploadFromReaderRequest.OnProgress req \<and> sz > 0) (Reader req) sz)
           (UploadFromReaderRequest.Filename req) sz (UploadFromReader_uploadReq req) w)"

text \<open>\<open>bytes.NewReader\<close> read by \<open>io.Copy\<close>, whose buffer holds 32 KiB: full buffers,
  then the rest, then a read of nothing with \<open>io.EOF\<close>.\<close>

function chunks32k :: "string \<Rightarrow> string list" where
  "chunks32k s = (if s = [] then [] else take 32768 s # chunks32k (drop 32768 s))"
  by pat_completeness auto
termination
  by (relation "measure length") auto

declare chunks32k.simps [simp del]

definition bytes_NewReader :: "string \<Rightarrow> reader" where
  "bytes_NewReader b = \<lparr>Chunks = chunks32k b, Last = [], End = EOF, Seeker = Some (int (length b))\<rparr>"

definition UploadBytes_uploadReq :: "UploadBytesRequest \<Rightarrow> UploadRequest" where
  "UploadBytes_uploadReq req =
     \<lparr>FilePath = [],
      UploadRequest.Bucket = UploadBytesRequest.Bucket req,
      UploadRequest.Key = UploadBytesRequest.Key req,
      UploadRequest.AllowedTypes = UploadBytesRequest.AllowedTypes req,
      UploadRequest.Compress = UploadBytesRequest.Compress req,
      UploadRequest.Quality = UploadBytesRequest.Quality req,
      UploadRequest.Watermark = UploadBytesRequest.Watermark req,
      UploadRequest.WatermarkText = UploadBytesRequest.WatermarkText req,
      UploadRequest.WatermarkPosition = UploadBytesRequest.WatermarkPosition req,
      UploadRequest.OnProgress = False\<rparr>"

definition UploadBytes :: "env \<Rightarrow> UploadBytesRequest \<Rightarrow> world \<Rightarrow> UploadResult result \<times> world" where
  "UploadBytes e req w =
     uploadReader e
       (wrapProgress (UploadBytesRequest.OnProgress req) (bytes_NewReader (Data req)) (int (length (Data req))))
       (UploadBytesRequest.Filename req) (int (length (Data req))) (UploadBytes_uploadReq req) w"

text \<open>\<open>BatchUpload\<close>: the loop over \<open>req.Files\<close> with index \<open>i\<close>, then the closing
  observer call. A panic inside an upload is not an error value and ends the batch.\<close>

definition BatchUpload_uploadReq :: "BatchUploadRequest \<Rightarrow> string \<Rightarrow> UploadRequest" where
  "BatchUpload_uploadReq req filePath =
     \<lparr>FilePath = filePath,
      UploadRequest.Bucket = BatchUploadRequest.Bucket req,
      UploadRequest.Key = (if KeyPrefix req \<noteq> [] then KeyPrefix req @ ''/'' @ Base filePath else []),
      UploadRequest.AllowedTypes = BatchUploadRequest.AllowedTypes req,
      UploadRequest.Compress = BatchUploadRequest.Compress req,
      UploadRequest.Quality = BatchUploadRequest.Quality req,
      UploadRequest.Watermark = BatchUploadRequest.Watermark req,
      UploadRequest.WatermarkText = BatchUploadRequest.WatermarkText req,
      UploadRequest.WatermarkPosition = BatchUploadRequest.WatermarkPosition req,
      UploadRequest.OnProgress = OnFileProgress req\<rparr>"

fun BatchUpload_loop :: "env \<Rightarrow> BatchUploadRequest \<Rightarrow> int \<Rightarrow> string list \<Rightarrow> BatchUploadResult \<Rightarrow> world \<Rightarrow> BatchUploadResult result \<times> world" where
  "BatchUpload_loop e req i [] result w = (Ok result, w)"
| "BatchUpload_loop e req i (filePath # rest) result w =
     (let w1 = (if BatchUploadRequest.OnProgress req
                then w\<lparr>batchProgress := batchProgress w @ [(i, int (length (Files req)), filePath)]\<rparr>
                else w)
      in case UploadFile e (BatchUpload_uploadReq req filePath) w1 of
           (Panic, w2) \<Rightarrow> (Panic, w2)
         | (Fail err, w2) \<Rightarrow>
             BatchUpload_loop e req (i + 1) rest
               (result\<lparr>Failed := Failed result @ [\<lparr>File = filePath, Error = Error_string err\<rparr>]\<rparr>) w2
         | (Ok uploadResult, w2) \<Rightarrow>
             BatchUpload_loop e req (i + 1) rest
               (result\<lparr>BatchUploadResult.Success := BatchUploadResult.Success result @ [uploadResult]\<rparr>) w2)"

definition BatchUpload :: "env \<Rightarrow> BatchUploadRequest \<Rightarrow> world \<Rightarrow> BatchUploadResult result \<times> world" where
  "BatchUpload e req w =
     (case BatchUpload_loop e req 0 (Files req)
             \<lparr>BatchUploadResult.Success = [], Failed = [], Total = int (length (Files req))\<rparr> w of
        (Ok result, w') \<Rightarrow>
          (Ok result,
           if BatchUploadRequest.OnProgress req
           then w'\<lparr>batchProgress := batchProgress w' @
                     [(int (length (Files req)), int (length (Files req)), [])]\<rparr>
           else w')
      | (Fail err, w') \<Rightarrow> (Fail err, w')
      | (Panic, w') \<Rightarrow> (Panic, w'))"


subsection \<open>Ping\<close>

definition Ping_request :: "env \<Rightarrow> Config \<Rightarrow> string + request" where
  "Ping_request e c =
     (case NewRequest e ''HEAD'' (TrimRight (BaseURL c)) NoBody of
        Inl m \<Rightarrow> Inl m
      | Inr httpReq \<Rightarrow> Inr (setCommonHeaders c httpReq))"

definition Ping :: "env \<Rightarrow> world \<Rightarrow> unit result \<times> world" where
  "Ping e w =
     (case Ping_request e (config w) of
        Inl m \<Rightarrow> (Fail (Plain (''failed to create ping request: '' @ m)), w)
      | Inr httpReq \<Rightarrow>
          (case retryLoop e httpReq 0 None w of
             (Some (TransportError m), w') \<Rightarrow>
               (Fail (Plain (''ping request failed after '' @ Itoa (RetryCount (config w')) @ '' retries: '' @ m)), w')
           | (None, w') \<Rightarrow> (Panic, w')
           | (Some (Response resp), w') \<Rightarrow>
               (if response.StatusCode resp \<ge> 400
                then (Fail (Plain (''ping failed with status code: '' @ Itoa (response.StatusCode resp))), w')
                else (Ok (), w'))))"

subsection \<open>File operations\<close>

definition DeleteFile_request :: "env \<Rightarrow> Config \<Rightarrow> string \<Rightarrow> string \<Rightarrow> string + request" where
  "DeleteFile_request e c bucket key =
     (case NewRequest e ''DELETE''
             (TrimRight (BaseURL c) @ ''/api/public/files/'' @ bucket @ ''/'' @ key) NoBody of
        Inl m \<Rightarrow> Inl m
      | Inr httpReq \<Rightarrow> Inr (setCommonHeaders c httpReq))"

definition DeleteFile :: "env \<Rightarrow> string \<Rightarrow> string \<Rightarrow> world \<Rightarrow> unit result \<times> world" where
  "DeleteFile e bucket key w =
     (case DeleteFile_request e (config w) bucket key of
        Inl m \<Rightarrow> (Fail (Plain (''failed to create request: '' @ m)), w)
      | Inr httpReq \<Rightarrow>
          (case sendExpect200 e httpReq w of (r, w') \<Rightarrow> (andThen r (\<lambda>resp. Ok ()), w')))"

definition GetFileURL_request :: "env \<Rightarrow> Config \<Rightarrow> string \<Rightarrow> string \<Rightarrow> int \<Rightarrow> string + request" where
  "GetFileURL_request e c bucket key expires =
     (case NewRequest e ''GET''
             (TrimRight (BaseURL c) @ ''/api/public/files/'' @ bucket @ ''/'' @ key @ ''/url'') NoBody of
        Inl m \<Rightarrow> Inl m
      | Inr httpReq \<Rightarrow>
          Inr (setCommonHeaders c
                 (if expires > 0
                  then httpReq\<lparr>Query := Values_Set ''expires'' (Duration_String expires) (Query httpReq)\<rparr>
                  else httpReq)))"

definition GetFileURL :: "env \<Rightarrow> string \<Rightarrow> string \<Rightarrow> int \<Rightarrow> world \<Rightarrow> string result \<times> world" where
  "GetFileURL e bucket key expires w =
     (case GetFileURL_request e (config w) bucket key expires of
        Inl m \<Rightarrow> (Fail (Plain (''failed to create request: '' @ m)), w)
      | Inr httpReq \<Rightarrow>
          (case sendExpect200 e httpReq w of (r, w') \<Rightarrow>
             (andThen r (\<lambda>resp.
                case Decode (DecodeURL e) resp of
                  Inl m \<Rightarrow> Fail (Plain (''failed to parse response: '' @ m))
                | Inr apiResp \<Rightarrow> Ok (apiResp.Data apiResp)), w')))"

definition GetFileInfo_request :: "env \<Rightarrow> Config \<Rightarrow> string \<Rightarrow> string \<Rightarrow> string + request" where
  "GetFileInfo_request e c bucket key =
     (case NewRequest e ''GET''
             (TrimRight (BaseURL c) @ ''/api/public/files/'' @ bucket @ ''/'' @ key @ ''/info'') NoBody of
        Inl m \<Rightarrow> Inl m
      | Inr httpReq \<Rightarrow> Inr (setCommonHeaders c httpReq))"

definition GetFileInfo :: "env \<Rightarrow> string \<Rightarrow> string \<Rightarrow> world \<Rightarrow> FileInfo result \<times> world" where
  "GetFileInfo e bucket key w =
     (case GetFileInfo_request e (config w) bucket key of
        Inl m \<Rightarrow> (Fail (Plain (''failed to create request: '' @ m)), w)
      | Inr httpReq \<Rightarrow>
          (case sendExpect200 e httpReq w of (r, w') \<Rightarrow>
             (andThen r (\<lambda>resp.
                case Decode (DecodeFileInfo e) resp of
                  Inl m \<Rightarrow> Fail (Plain (''failed to parse response: '' @ m))
                | Inr apiResp \<Rightarrow> Ok (apiResp.Data apiResp)), w')))"

definition ListFiles_request :: "env \<Rightarrow> Config \<Rightarrow> ListFilesRequest \<Rightarrow> string + request" where
  "ListFiles_request e c req =
     (case NewRequest e ''GET''
             (TrimRight (BaseURL c) @ ''/api/public/buckets/'' @ ListFilesRequest.Bucket req @ ''/files'') NoBody of
        Inl m \<Rightarrow> Inl m
      | Inr httpReq \<Rightarrow>
          (let q = Query httpReq;
               q = (if Prefix req \<noteq> [] then Values_Set ''prefix'' (Prefix req) q else q);
               q = (if Marker req \<noteq> [] then Values_Set ''marker'' (Marker req) q else q);
               q = (if Delimiter req \<noteq> [] then Values_Set ''delimiter'' (Delimiter req) q else q);
               q = (if Limit req > 0 then Values_Set ''limit'' (Itoa (Limit req)) q else q)
           in Inr (setCommonHeaders c (httpReq\<lparr>Query := q\<rparr>))))"

definition ListFiles :: "env \<Rightarrow> ListFilesRequest \<Rightarrow> world \<Rightarrow> ListFilesResult result \<times> world" where
  "ListFiles e req w =
     (case ListFiles_request e (config w) req of
        Inl m \<Rightarrow> (Fail (Plain (''failed to create request: '' @ m)), w)
      | Inr httpReq \<Rightarrow>
          (case sendExpect200 e httpReq w of (r, w') \<Rightarrow>
             (andThen r (\<lambda>resp.
                case Decode (DecodeListFiles e) resp of
                  Inl m \<Rightarrow> Fail (Plain (''failed to parse response: '' @ m))
                | Inr apiResp \<Rightarrow> Ok (apiResp.Data apiResp)), w')))"

definition CopyFile_request :: "env \<Rightarrow> Config \<Rightarrow> CopyFileRequest \<Rightarrow> string + request" where
  "CopyFile_request e c req =
     (case NewRequest e ''POST''
             (TrimRight (BaseURL c) @ ''/api/public/files/'' @ CopyFileRequest.SrcBucket req @ ''/''
                @ CopyFileRequest.SrcKey req @ ''/copy'')
             (JSON [(''destBucket'', JString (CopyFileRequest.DestBucket req)),
                    (''destKey'', JString (CopyFileRequest.DestKey req))]) of
        Inl m \<Rightarrow> Inl m
      | Inr httpReq \<Rightarrow>
          Inr (setCommonHeaders c (Header_Set CONETENT_TYPE ''application/json'' httpReq)))"

definition CopyFile :: "env \<Rightarrow> CopyFileRequest \<Rightarrow> world \<Rightarrow> unit result \<times> world" where
  "CopyFile e req w =
     (case CopyFile_request e (config w) req of
        Inl m \<Rightarrow> (Fail (Plain (''failed to create request: '' @ m)), w)
      | Inr httpReq \<Rightarrow>
          (case sendExpect200 e httpReq w of (r, w') \<Rightarrow> (andThen r (\<lambda>resp. Ok ()), w')))"

definition MoveFile_request :: "env \<Rightarrow> Config \<Rightarrow> MoveFileRequest \<Rightarrow> string + request" where
  "MoveFile_request e c req =
     (case NewRequest e ''POST''
             (TrimRight (BaseURL c) @ ''/api/public/files/'' @ MoveFileRequest.SrcBucket req @ ''/''
                @ MoveFileRequest.SrcKey req @ ''/move'')
             (JSON [(''destBucket'', JString (MoveFileRequest.DestBucket req)),
                    (''destKey'', JString (MoveFileRequest.DestKey req))]) of
        Inl m \<Rightarrow> Inl m
      | Inr httpReq \<Rightarrow>
          Inr (setCommonHeaders c (Header_Set CONETENT_TYPE ''application/json'' httpReq)))"

definition MoveFile :: "env \<Rightarrow> MoveFileRequest \<Rightarrow> world \<Rightarrow> unit result \<times> world" where
  "MoveFile e req w =
     (case MoveFile_request e (config w) req of
        Inl m \<Rightarrow> (Fail (Plain (''failed to create request: '' @ m)), w)
      | Inr httpReq \<Rightarrow>
          (case sendExpect200 e httpReq w of (r, w') \<Rightarrow> (andThen r (\<lambda>resp. Ok ()), w')))"

subsection \<open>Bucket operations\<close>

definition ListBuckets_request :: "env \<Rightarrow> Config \<Rightarrow> string \<Rightarrow> bool \<Rightarrow> string + request" where
  "ListBuckets_request e c tagCondition shared =
     (case NewRequest e ''GET'' (TrimRight (BaseURL c) @ ''/api/public/buckets'') NoBody of
        Inl m \<Rightarrow> Inl m
      | Inr httpReq \<Rightarrow>
          (let q = Query httpReq;
               q = (if tagCondition \<noteq> [] then Values_Set ''tagCondition'' tagCondition q else q);
               q = (if shared then Values_Set ''shared'' ''true'' q else q)
           in Inr (setCommonHeaders c (httpReq\<lparr>Query := q\<rparr>))))"

definition ListBuckets :: "env \<Rightarrow> string \<Rightarrow> bool \<Rightarrow> world \<Rightarrow> string list result \<times> world" where
  "ListBuckets e tagCondition shared w =
     (case ListBuckets_request e (config w) tagCondition shared of
        Inl m \<Rightarrow> (Fail (Plain (''failed to create request: '' @ m)), w)
      | Inr httpReq \<Rightarrow>
          (case sendExpect200 e httpReq w of (r, w') \<Rightarrow>
             (andThen r (\<lambda>resp.
                case Decode (DecodeBuckets e) resp of
                  Inl m \<Rightarrow> Fail (Plain (''failed to parse response: '' @ m))
                | Inr apiResp \<Rightarrow> Ok (apiResp.Data apiResp)), w')))"

definition CreateBucket_request :: "env \<Rightarrow> Config \<Rightarrow> CreateBucketRequest \<Rightarrow> string + request" where
  "CreateBucket_request e c req =
     (case NewRequest e ''POST'' (TrimRight (BaseURL c) @ ''/api/public/buckets'')
             (JSON [(''bucketName'', JString (CreateBucketRequest.BucketName req)),
                    (''region'', JString (Region req))]) of
        Inl m \<Rightarrow> Inl m
      | Inr httpReq \<Rightarrow>
          Inr (setCommonHeaders c (Header_Set CONETENT_TYPE ''application/json'' httpReq)))"

definition CreateBucket :: "env \<Rightarrow> CreateBucketRequest \<Rightarrow> world \<Rightarrow> unit result \<times> world" where
  "CreateBucket e req w =
     (case CreateBucket_request e (config w) req of
        Inl m \<Rightarrow> (Fail (Plain (''failed to create request: '' @ m)), w)
      | Inr httpReq \<Rightarrow>
          (case sendExpect200 e httpReq w of (r, w') \<Rightarrow> (andThen r (\<lambda>resp. Ok ()), w')))"

definition DeleteBucket_request :: "env \<Rightarrow> Config \<Rightarrow> string \<Rightarrow> string + request" where
  "DeleteBucket_request e c bucketName =
     (case NewRequest e ''DELETE'' (TrimRight (BaseURL c) @ ''/api/public/buckets/'' @ bucketName) NoBody of
        Inl m \<Rightarrow> Inl m
      | Inr httpReq \<Rightarrow> Inr (setCommonHeaders c httpReq))"

definition DeleteBucket :: "env \<Rightarrow> string \<Rightarrow> world \<Rightarrow> unit result \<times> world" where
  "DeleteBucket e bucketName w =
     (case DeleteBucket_request e (config w) bucketName of
        Inl m \<Rightarrow> (Fail (Plain (''failed to create request: '' @ m)), w)
      | Inr httpReq \<Rightarrow>
          (case sendExpect200 e httpReq w of (r, w') \<Rightarrow> (andThen r (\<lambda>resp. Ok ()), w')))"

definition GetBucketDomains_request :: "env \<Rightarrow> Config \<Rightarrow> string \<Rightarrow> string + request" where
  "GetBucketDomains_request e c bucketName =
     (case NewRequest e ''GET''
             (TrimRight (BaseURL c) @ ''/api/public/buckets/'' @ bucketName @ ''/domains'') NoBody of
        Inl m \<Rightarrow> Inl m
      | Inr httpReq \<Rightarrow> Inr (setCommonHeaders c httpReq))"

definition GetBucketDomains :: "env \<Rightarrow> string \<Rightarrow> world \<Rightarrow> string list result \<times> world" where
  "GetBucketDomains e bucketName w =
     (case GetBucketDomains_request e (config w) bucketName of
        Inl m \<Rightarrow> (Fail (Plain (''failed to create request: '' @ m)), w)
      | Inr httpReq \<Rightarrow>
          (case sendExpect200 e httpReq w of (r, w') \<Rightarrow>
             (andThen r (\<lambda>resp.
                case Decode (DecodeDomains e) resp of
                  Inl m \<Rightarrow> Fail (Plain (''failed to parse response: '' @ m))
                | Inr apiResp \<Rightarrow> Ok (apiResp.Data apiResp)), w')))"

definition SetBucketPrivate_request :: "env \<Rightarrow> Config \<Rightarrow> SetBucketPrivateRequest \<Rightarrow> string + request" where
  "SetBucketPrivate_request e c req =
     (case NewRequest e ''PUT''
             (TrimRight (BaseURL c) @ ''/api/public/buckets/'' @ SetBucketPrivateRequest.BucketName req @ ''/private'')
             (JSON [(''isPrivate'', JBool (IsPrivate req))]) of
        Inl m \<Rightarrow> Inl m
      | Inr httpReq \<Rightarrow>
          Inr (setCommonHeaders c (Header_Set CONETENT_TYPE ''application/json'' httpReq)))"

definition SetBucketPrivate :: "env \<Rightarrow> SetBucketPrivateRequest \<Rightarrow> world \<Rightarrow> unit result \<times> world" where
  "SetBucketPrivate e req w =
     (case SetBucketPrivate_request e (config w) req of
        Inl m \<Rightarrow> (Fail (Plain (''failed to create request: '' @ m)), w)
      | Inr httpReq \<Rightarrow>
          (case sendExpect200 e httpReq w of (r, w') \<Rightarrow> (andThen r (\<lambda>resp. Ok ()), w')))"


subsection \<open>The operations as one type\<close>

text \<open>The fifteen operations that issue one request each, with their arguments, and what
  they return. (\<open>BatchUpload\<close> is the sixteenth operation; it runs \<open>UploadFile\<close> once per
  file.)\<close>

datatype operation =
    OpUploadFile UploadRequest
  | OpUploadFromReader UploadFromReaderRequest
  | OpUploadBytes UploadBytesRequest
  | OpPing
  | OpDeleteFile string string
  | OpGetFileURL string string int
  | OpGetFileInfo string string
  | OpListFiles ListFilesRequest
  | OpListBuckets string bool
  | OpCreateBucket CreateBucketRequest
  | OpDeleteBucket string
  | OpGetBucketDomains string
  | OpSetBucketPrivate SetBucketPrivateRequest
  | OpCopyFile CopyFileRequest
  | OpMoveFile MoveFileRequest

datatype retval =
    RetUpload UploadResult
  | RetString string
  | RetFileInfo FileInfo
  | RetListFiles ListFilesResult
  | RetStrings "string list"
  | RetUnit

definition returning :: "('a \<Rightarrow> retval) \<Rightarrow> 'a result \<times> world \<Rightarrow> retval result \<times> world" where
  "returning f p = (case p of (r, w) \<Rightarrow> (map_result f r, w))"

fun run :: "env \<Rightarrow> operation \<Rightarrow> world \<Rightarrow> retval result \<times> world" where
  "run e (OpUploadFile req) w = returning RetUpload (UploadFile e req w)"
| "run e (OpUploadFromReader req) w = returning RetUpload (UploadFromReader e req w)"
| "run e (OpUploadBytes req) w = returning RetUpload (UploadBytes e req w)"
| "run e OpPing w = returning (\<lambda>u. RetUnit) (Ping e w)"
| "run e (OpDeleteFile bucket key) w = returning (\<lambda>u. RetUnit) (DeleteFile e bucket key w)"
| "run e (OpGetFileURL bucket key expires) w = returning RetString (GetFileURL e bucket key expires w)"
| "run e (OpGetFileInfo bucket key) w = returning RetFileInfo (GetFileInfo e bucket key w)"
| "run e (OpListFiles req) w = returning RetListFiles (ListFiles e req w)"
| "run e (OpListBuckets tagCondition shared) w = returning RetStrings (ListBuckets e tagCondition shared w)"
| "run e (OpCreateBucket req) w = returning (\<lambda>u. RetUnit) (CreateBucket e req w)"
| "run e (OpDeleteBucket bucketName) w = returning (\<lambda>u. RetUnit) (DeleteBucket e bucketName w)"
| "run e (OpGetBucketDomains bucketName) w = returning RetStrings (GetBucketDomains e bucketName w)"
| "run e (OpSetBucketPrivate req) w = returning (\<lambda>u. RetUnit) (SetBucketPrivate e req w)"
| "run e (OpCopyFile req) w = returning (\<lambda>u. RetUnit) (CopyFile e req w)"
| "run e (OpMoveFile req) w = returning (\<lambda>u. RetUnit) (MoveFile e req w)"

text \<open>The request an operation hands to its retry loop, \<open>None\<close> when the operation fails
  before it has one (the file does not open, the source does not read, the URL does not
  parse), and the world at that point.\<close>

definition built :: "'a + request \<Rightarrow> request option" where
  "built x = (case x of Inl m \<Rightarrow> None | Inr r \<Rightarrow> Some r)"

fun request_of :: "env \<Rightarrow> operation \<Rightarrow> world \<Rightarrow> request option \<times> world" where
  "request_of e (OpUploadFile req) w =
     (case Open e (FilePath req) of
        Inl m \<Rightarrow> (None, w)
      | Inr f \<Rightarrow>
          (case Stat f of
             Inl m \<Rightarrow> (None, w)
           | Inr fileSize \<Rightarrow>
               (case uploadReader_request e (wrapProgress (UploadRequest.OnProgress req) (Contents f) fileSize)
                       (Base (FilePath req)) req w of
                  (x, w1) \<Rightarrow> (built x, w1))))"
| "request_of e (OpUploadFromReader req) w =
     (case uploadReader_request e
             (wrapProgress (UploadFromReaderRequest.OnProgress req \<and> UploadFromReader_size req > 0)
                (Reader req) (UploadFromReader_size req))
             (UploadFromReaderRequest.Filename req) (UploadFromReader_uploadReq req) w of
        (x, w1) \<Rightarrow> (built x, w1))"
| "request_of e (OpUploadBytes req) w =
     (case uploadReader_request e
             (wrapProgress (UploadBytesRequest.OnProgress req) (bytes_NewReader (Data req)) (int (length (Data req))))
             (UploadBytesRequest.Filename req) (UploadBytes_uploadReq req) w of
        (x, w1) \<Rightarrow> (built x, w1))"
| "request_of e OpPing w = (built (Ping_request e (config w)), w)"
| "request_of e (OpDeleteFile bucket key) w = (built (DeleteFile_request e (config w) bucket key), w)"
| "request_of e (OpGetFileURL bucket key expires) w = (built (GetFileURL_request e (config w) bucket key expires), w)"
| "request_of e (OpGetFileInfo bucket key) w = (built (GetFileInfo_request e (config w) bucket key), w)"
| "request_of e (OpListFiles req) w = (built (ListFiles_request e (config w) req), w)"
| "request_of e (OpListBuckets tagCondition shared) w = (built (ListBuckets_request e (config w) tagCondition shared), w)"
| "request_of e (OpCreateBucket req) w = (built (CreateBucket_request e (config w) req), w)"
| "request_of e (OpDeleteBucket bucketName) w = (built (DeleteBucket_request e (config w) bucketName), w)"
| "request_of e (OpGetBucketDomains bucketName) w = (built (GetBucketDomains_request e (config w) bucketName), w)"
| "request_of e (OpSetBucketPrivate req) w = (built (SetBucketPrivate_request e (config w) req), w)"
| "request_of e (OpCopyFile req) w = (built (CopyFile_request e (config w) req), w)"
| "request_of e (OpMoveFile req) w = (built (MoveFile_request e (config w) req), w)"

text \<open>The number of passes the retry loop makes when \<open>k\<close> requests have been sent before
  it and \<open>b\<close> passes remain in its budget.\<close>

fun attemptsFrom :: "env \<Rightarrow> request \<Rightarrow> nat \<Rightarrow> nat \<Rightarrow> nat" where
  "attemptsFrom e r k 0 = 0"
| "attemptsFrom e r k (Suc b) =
     (if retryable (Do e k r) then Suc (attemptsFrom e r (Suc k) b) else 1)"

text \<open>Whether a call ended in an error value.\<close>

fun failed :: "'a result \<Rightarrow> bool" where
  "failed (Fail err) = True"
| "failed (Ok x) = False"
| "failed Panic = False"


text \<open>Whether the outcome the retry loop ends on makes the call an error: a transport
  failure, or a response with a status of 400 or more.\<close>

definition bad :: "outcome option \<Rightarrow> bool" where
  "bad out = (case out of None \<Rightarrow> False | Some (TransportError m) \<Rightarrow> True
              | Some (Response resp) \<Rightarrow> response.StatusCode resp \<ge> 400)"


text \<open>The source an \<open>io.Reader\<close> of \<open>uploadReader\<close> reads from.\<close>

fun source :: "io_Reader \<Rightarrow> reader" where
  "source (Raw r) = r"
| "source (Progress pr) = reader pr"

text \<open>The results of the \<open>UploadFile\<close> calls the loop of \<open>BatchUpload\<close> makes, in order
  (none after a panic), the values of the successful ones, and the entries recorded for the
  failed ones.\<close>

fun BatchUpload_results :: "env \<Rightarrow> BatchUploadRequest \<Rightarrow> int \<Rightarrow> string list \<Rightarrow> world \<Rightarrow> UploadResult result list" where
  "BatchUpload_results e req i [] w = []"
| "BatchUpload_results e req i (filePath # rest) w =
     (let w1 = (if BatchUploadRequest.OnProgress req
                then w\<lparr>batchProgress := batchProgress w @ [(i, int (length (Files req)), filePath)]\<rparr>
                else w);
          p = UploadFile e (BatchUpload_uploadReq req filePath) w1
      in fst p # (if fst p = Panic then [] else BatchUpload_results e req (i + 1) rest (snd p)))"

fun uploaded :: "UploadResult result list \<Rightarrow> UploadResult list" where
  "uploaded [] = []"
| "uploaded (Ok u # rs) = u # uploaded rs"
| "uploaded (r # rs) = uploaded rs"

fun rejected :: "(string \<times> UploadResult result) list \<Rightarrow> UploadError list" where
  "rejected [] = []"
| "rejected ((filePath, Fail err) # rs) = \<lparr>File = filePath, Error = Error_string err\<rparr> # rejected rs"
| "rejected (r # rs) = rejected rs"

text \<open>The delays of \<open>m\<close> successive retries as the loop computes them: the one after
  attempt \<open>i\<close> is \<open>time.Duration(i+1) * time.Second\<close>.\<close>

definition ramp :: "nat \<Rightarrow> int list" where
  "ramp m = map (\<lambda>i. seconds (int i + 1)) [0..<m]"

subsection \<open>Concrete scenarios\<close>

text \<open>A configuration with every optional field unset, and the world in which a client is
  made from it.\<close>

definition config0 :: Config where
  "config0 = \<lparr>BaseURL = ''http://localhost:7075/'', APIKey = ''key'', APISecret = [],
               Timeout = 0, RetryCount = 0, UserAgent = []\<rparr>"

definition world0 :: world where
  "world0 = \<lparr>config = config0, sent = [], slept = [], fileProgress = [], batchProgress = []\<rparr>"

text \<open>Response bodies, and what \<open>encoding/json\<close> decodes them to: a success envelope of
  the \<open>code\<close> shape, a failure envelope, and an error body.\<close>

definition okBody :: string where
  \<open>okBody = ''{"code":200,"msg":"File uploaded successfully","data":{"key":"k1","bucket":"b1"}}''\<close>

definition failBody :: string where
  \<open>failBody = ''{"success":false,"code":507,"msg":"quota exceeded"}''\<close>

definition errorBody :: string where
  \<open>errorBody = ''{"message":"bad request"}''\<close>

definition stored :: UploadResult where
  "stored = \<lparr>UploadResult.Key = ''k1'', UploadResult.Bucket = ''b1'', UploadResult.Filename = [],
              UploadResult.Size = 0, OriginalSize = 0, Compressed = False, Watermarked = False,
              URL = []\<rparr>"

definition noUploadResult :: UploadResult where
  "noUploadResult = \<lparr>UploadResult.Key = [], UploadResult.Bucket = [], UploadResult.Filename = [],
              UploadResult.Size = 0, OriginalSize = 0, Compressed = False, Watermarked = False,
              URL = []\<rparr>"

definition jsonUpload :: "string \<Rightarrow> string + UploadResult uploadApiResp" where
  "jsonUpload b =
     (if b = okBody then
        Inr \<lparr>apiResp.Success = False, apiResp.Data = stored, Message = [], Code = 200,
             Msg = ''File uploaded successfully''\<rparr>
      else if b = failBody then
        Inr \<lparr>apiResp.Success = False, apiResp.Data = noUploadResult, Message = [], Code = 507,
             Msg = ''quota exceeded''\<rparr>
      else Inl ''unexpected end of JSON input'')"

definition jsonAPIError :: "string \<Rightarrow> string + APIError" where
  "jsonAPIError b =
     (if b = errorBody then Inr \<lparr>APIError.StatusCode = 0, Message = ''bad request'', Details = []\<rparr>
      else Inl ''unexpected end of JSON input'')"

definition jsonURL :: "string \<Rightarrow> string + string apiResp" where
  "jsonURL b =
     (if b = failBody then Inr \<lparr>apiResp.Success = False, apiResp.Data = []\<rparr>
      else Inl ''unexpected end of JSON input'')"

text \<open>A disk with three files of five bytes, each read in two chunks and then a read of
  nothing at the end of the file.\<close>

definition disk :: "string \<Rightarrow> string + osFile" where
  "disk p =
     (if p = ''/data/a.txt'' \<or> p = ''/data/b.txt'' \<or> p = ''/data/c.txt''
      then Inr \<lparr>Stat = Inr 5,
                Contents = \<lparr>Chunks = [''hel'', ''lo''], Last = [], End = EOF, Seeker = Some 5\<rparr>\<rparr>
      else Inl (''open '' @ p @ '': no such file or directory''))"

text \<open>The environment around a given transport \<open>d\<close>: that disk, every URL parses and
  carries no query, the bodies above decode as said and nothing else decodes.\<close>

definition envWith :: "(nat \<Rightarrow> request \<Rightarrow> outcome) \<Rightarrow> env" where
  "envWith d =
     \<lparr>Do = d, Open = disk, ParseURL = (\<lambda>u. Inr []), Boundary = ''b0undary'',
      UnmarshalAPIError = jsonAPIError, UnmarshalUpload = jsonUpload, DecodeURL = jsonURL,
      DecodeFileInfo = (\<lambda>b. Inl ''unexpected end of JSON input''),
      DecodeListFiles = (\<lambda>b. Inl ''unexpected end of JSON input''),
      DecodeBuckets = (\<lambda>b. Inl ''unexpected end of JSON input''),
      DecodeDomains = (\<lambda>b. Inl ''unexpected end of JSON input'')\<rparr>"

text \<open>A response with a status and a body; servers that always answer 400, and 500.\<close>

definition answer :: "int \<Rightarrow> string \<Rightarrow> outcome" where
  "answer code b = Response \<lparr>response.StatusCode = code, RespBody = Inr b\<rparr>"

definition env400 :: env where
  "env400 = envWith (\<lambda>n r. answer 400 errorBody)"

definition env500 :: env where
  "env500 = envWith (\<lambda>n r. answer 500 [])"

text \<open>A configuration with every field set, as \<open>NewClient\<close> leaves it, for a given
  retry count; the world of a fresh client with it; a batch of two files.\<close>

definition configOf :: "int \<Rightarrow> Config" where
  "configOf rc = \<lparr>BaseURL = ''http://localhost:7075/'', APIKey = ''key'', APISecret = [],
               Timeout = 30000000000, RetryCount = rc, UserAgent = ''LingStorage-SDK/1.0.0''\<rparr>"

definition worldOf :: "int \<Rightarrow> world" where
  "worldOf rc = \<lparr>config = configOf rc, sent = [], slept = [], fileProgress = [], batchProgress = []\<rparr>"

definition twoFiles :: BatchUploadRequest where
  "twoFiles = \<lparr>Files = [''/data/a.txt'', ''/data/b.txt''], BatchUploadRequest.Bucket = ''b1'',
      KeyPrefix = [], BatchUploadRequest.AllowedTypes = [], BatchUploadRequest.Compress = False,
      BatchUploadRequest.Quality = 0, BatchUploadRequest.Watermark = False,
      BatchUploadRequest.WatermarkText = [], BatchUploadRequest.WatermarkPosition = [],
      BatchUploadRequest.OnProgress = True, OnFileProgress = False\<rparr>"

text \<open>A server that answers the second request it receives with the failure envelope and
  every other request with the success envelope; a batch of the three files of the disk.\<close>

definition envSecondFails :: env where
  "envSecondFails = envWith (\<lambda>n r. if n = 1 then answer 200 failBody else answer 200 okBody)"

definition threeFiles :: BatchUploadRequest where
  "threeFiles = \<lparr>Files = [''/data/a.txt'', ''/data/b.txt'', ''/data/c.txt''],
      BatchUploadRequest.Bucket = ''b1'',
      KeyPrefix = [], BatchUploadRequest.AllowedTypes = [], BatchUploadRequest.Compress = False,
      BatchUploadRequest.Quality = 0, BatchUploadRequest.Watermark = False,
      BatchUploadRequest.WatermarkText = [], BatchUploadRequest.WatermarkPosition = [],
      BatchUploadRequest.OnProgress = True, OnFileProgress = True\<rparr>"

section \<open>Properties\<close>

lemmas scenario_defs = envWith_def answer_def env400_def env500_def configOf_def worldOf_def
  disk_def jsonUpload_def jsonAPIError_def jsonURL_def twoFiles_def threeFiles_def
  envSecondFails_def okBody_def failBody_def errorBody_def

lemmas operation_defs = Ping_def Ping_request_def NewRequest_def setCommonHeaders_def
  Header_Set_def USER_AGENT_def XAPIKEY_def XAPISECRET_def CONETENT_TYPE_def TrimRight_def
  returning_def UploadFile_def uploadReader_def uploadReader_request_def wrapProgress_def
  copied_def formFields_def BatchUpload_def BatchUpload_uploadReq_def uploadReader_response_def



subsection \<open>Library helpers on concrete values\<close>

lemma seconds_exact:
  assumes "0 \<le> n" "n \<le> 9223372036"
  shows "seconds n = n * Second"
proof -
  have "seconds n = sint (word_of_int (n * Second) :: 64 word)"
    by (simp add: seconds_def)
  also have "\<dots> = signed_take_bit 63 (n * Second)"
    by (simp only: signed_of_int) simp
  also have "\<dots> = n * Second"
    using assms by (intro signed_take_bit_int_eq_self) (simp_all add: Second_def)
  finally show ?thesis .
qed

lemma seconds_30: "seconds 30 = 30 * Second"
  by (rule seconds_exact) simp_all

lemma fmtFrac_numeral:
  "fmtFrac (numeral k) v pr acc =
     (let digit = v mod 10; pr' = (pr \<or> digit \<noteq> 0)
      in fmtFrac (pred_numeral k) (v div 10) pr' (if pr' then digit_char digit # acc else acc))"
  using fmtFrac.simps(2) [of "pred_numeral k" v pr acc]
  by (simp only: numeral_eq_Suc [of k, symmetric])

lemma Duration_String_hour: "Duration_String (3600 * Second) = ''1h0m0s''"
  by (simp add: Duration_String_def Second_def fmtInt.simps digit_char_def fmtFrac_numeral Let_def)

lemma Itoa_200: "Itoa 200 = ''200''"
  by (simp add: Itoa_def fmtInt.simps digit_char_def)

lemma Itoa_80: "Itoa 80 = ''80''"
  by (simp add: Itoa_def fmtInt.simps digit_char_def)

subsection \<open>The retry loop\<close>

lemma budget_step: "i \<le> rc \<Longrightarrow> nat (rc + 1 - i) = Suc (nat (rc + 1 - (i + 1)))"
  by simp

lemma attemptsFrom_le: "attemptsFrom e r k b \<le> b"
  by (induction b arbitrary: k) auto

lemma attemptsFrom_pos: "0 < b \<Longrightarrow> 0 < attemptsFrom e r k b"
  by (cases b) auto

lemma attemptsFrom_next:
  "j < attemptsFrom e r k b \<Longrightarrow>
   (Suc j < attemptsFrom e r k b) = (retryable (Do e (k + j) r) \<and> Suc j < b)"
proof (induction b arbitrary: k j)
  case 0
  then show ?case by simp
next
  case (Suc b)
  show ?case
  proof (cases j)
    case 0
    then show ?thesis using attemptsFrom_pos [of b e r "Suc k"] by (cases b) auto
  next
    case (Suc j')
    with Suc.prems have r: "retryable (Do e k r)" and j': "j' < attemptsFrom e r (Suc k) b"
      by (auto split: if_splits)
    show ?thesis using Suc.IH [OF j'] r Suc by simp
  qed
qed

lemma retryLoop_frame:
  "config (snd (retryLoop e r i prev w)) = config w \<and>
   fileProgress (snd (retryLoop e r i prev w)) = fileProgress w \<and>
   batchProgress (snd (retryLoop e r i prev w)) = batchProgress w"
proof (induction e r i prev w rule: retryLoop.induct)
  case (1 e httpReq i prev w)
  show ?case
  proof (cases "i \<le> RetryCount (config w) \<and> retryable (Do e (length (sent w)) httpReq)")
    case False
    then show ?thesis by (subst (1 2 3) retryLoop.simps) (auto simp: Let_def)
  next
    case True
    then show ?thesis
      apply (subst (1 2 3) retryLoop.simps)
      using 1 [OF _ refl refl]  by (simp add: Let_def)
  qed
qed

lemma retryLoop_sent:
  "sent (snd (retryLoop e r i prev w)) =
   sent w @ replicate (attemptsFrom e r (length (sent w)) (nat (RetryCount (config w) + 1 - i))) r"
proof (induction e r i prev w rule: retryLoop.induct)
  case (1 e httpReq i prev w)
  show ?case
  proof (cases "i \<le> RetryCount (config w)")
    case False
    then show ?thesis by (subst retryLoop.simps) simp
  next
    case True
    note b = budget_step [OF True]
    show ?thesis
    proof (cases "retryable (Do e (length (sent w)) httpReq)")
      case False
      then show ?thesis
        by (subst retryLoop.simps) (simp add: True b Let_def del: nat_diff_distrib)
    next
      case r: True
      show ?thesis
        apply (subst retryLoop.simps)
        using True r 1 [OF True refl refl]
        apply (simp add: b Let_def replicate_app_Cons_same)
        done
    qed
  qed
qed

lemma retryLoop_slept:
  "slept (snd (retryLoop e r i prev w)) =
   slept w @ map (\<lambda>j. seconds (i + int j + 1))
     [0 ..< attemptsFrom e r (length (sent w)) (nat (RetryCount (config w) + 1 - i)) - 1]"
proof (induction e r i prev w rule: retryLoop.induct)
  case (1 e httpReq i prev w)
  show ?case
  proof (cases "i \<le> RetryCount (config w)")
    case False
    then show ?thesis by (subst retryLoop.simps) simp
  next
    case True
    note b = budget_step [OF True]
    show ?thesis
    proof (cases "retryable (Do e (length (sent w)) httpReq)")
      case False
      then show ?thesis
        by (subst retryLoop.simps) (simp add: True b Let_def del: nat_diff_distrib)
    next
      case r: True
      show ?thesis
      proof (cases "i < RetryCount (config w)")
        case False
        with True have z: "nat (RetryCount (config w) + 1 - (i + 1)) = 0" by simp
        show ?thesis
          apply (subst retryLoop.simps)
          using True r False 1 [OF True refl refl]
          by (simp add: b z Let_def)
      next
        case lt: True
        then have pos: "0 < attemptsFrom e httpReq (Suc (length (sent w))) (nat (RetryCount (config w) + 1 - (i + 1)))"
          by (intro attemptsFrom_pos) simp
        have m: "map (\<lambda>j. seconds (i + int j + 1)) [0..<Suc n] =
                 seconds (i + 1) # map (\<lambda>j. seconds (i + 1 + int j + 1)) [0..<n]" for n
          by (simp add: upt_conv_Cons map_Suc_upt [symmetric] del: upt_Suc) 
        show ?thesis
          apply (subst retryLoop.simps)
          using True r lt pos 1 [OF True refl refl]
          apply (simp add: b Let_def)
          apply (cases "attemptsFrom e httpReq (Suc (length (sent w))) (nat (RetryCount (config w) + 1 - (i + 1)))")
           apply simp
          apply (simp add: m del: upt_Suc)
          done
      qed
    qed
  qed
qed

lemma retryLoop_result:
  "fst (retryLoop e r i prev w) =
   (let n = attemptsFrom e r (length (sent w)) (nat (RetryCount (config w) + 1 - i))
    in if n = 0 then prev else Some (Do e (length (sent w) + n - 1) r))"
proof (induction e r i prev w rule: retryLoop.induct)
  case (1 e httpReq i prev w)
  show ?case
  proof (cases "i \<le> RetryCount (config w)")
    case False
    then show ?thesis by (subst retryLoop.simps) simp
  next
    case True
    note b = budget_step [OF True]
    show ?thesis
    proof (cases "retryable (Do e (length (sent w)) httpReq)")
      case False
      then show ?thesis
        by (subst retryLoop.simps) (simp add: True b Let_def del: nat_diff_distrib)
    next
      case r: True
      show ?thesis
        apply (subst retryLoop.simps)
        using True r 1 [OF True refl refl]
        apply (simp add: b Let_def)
        done
    qed
  qed
qed

subsection \<open>Every single-request operation is its request, the retry loop, its verdict\<close>

lemma sendExpect200_world:
  "snd (sendExpect200 e r w) = snd (retryLoop e r 0 None w)"
  by (simp add: sendExpect200_def doRequestWithRetry_def case_prod_beta split: option.splits outcome.splits sum.splits)

lemma uploadReader_world:
  "snd (uploadReader e rd fn sz req w) =
   (case fst (uploadReader_request e rd fn req w) of
      Inl err \<Rightarrow> snd (uploadReader_request e rd fn req w)
    | Inr r \<Rightarrow> snd (retryLoop e r 0 None (snd (uploadReader_request e rd fn req w))))"
  by (simp add: uploadReader_def case_prod_beta split: option.splits outcome.splits sum.splits)

lemma run_world:
  "snd (run e op w) =
   (case fst (request_of e op w) of
      None \<Rightarrow> snd (request_of e op w)
    | Some r \<Rightarrow> snd (retryLoop e r 0 None (snd (request_of e op w))))"
proof (cases op)
  case (OpUploadFile req)
  then show ?thesis
    by (simp add: returning_def UploadFile_def uploadReader_world built_def sendExpect200_world uploadReader_world case_prod_beta split: sum.splits)
next
  case (OpUploadFromReader req)
  then show ?thesis
    by (simp add: returning_def UploadFromReader_def uploadReader_world built_def Let_def sendExpect200_world uploadReader_world case_prod_beta split: sum.splits)
next
  case (OpUploadBytes req)
  then show ?thesis
    by (simp add: returning_def UploadBytes_def uploadReader_world built_def sendExpect200_world uploadReader_world case_prod_beta split: sum.splits)
next
  case OpPing
  then show ?thesis
    by (simp add: returning_def Ping_def built_def case_prod_beta split: sum.splits option.splits outcome.splits)
next
  case (OpDeleteFile b k)
  then show ?thesis
    by (simp add: returning_def DeleteFile_def built_def sendExpect200_world uploadReader_world case_prod_beta split: sum.splits)
next
  case (OpGetFileURL b k x)
  then show ?thesis
    by (simp add: returning_def GetFileURL_def built_def sendExpect200_world uploadReader_world case_prod_beta split: sum.splits)
next
  case (OpGetFileInfo b k)
  then show ?thesis
    by (simp add: returning_def GetFileInfo_def built_def sendExpect200_world uploadReader_world case_prod_beta split: sum.splits)
next
  case (OpListFiles req)
  then show ?thesis
    by (simp add: returning_def ListFiles_def built_def sendExpect200_world uploadReader_world case_prod_beta split: sum.splits)
next
  case (OpListBuckets t s)
  then show ?thesis
    by (simp add: returning_def ListBuckets_def built_def sendExpect200_world uploadReader_world case_prod_beta split: sum.splits)
next
  case (OpCreateBucket req)
  then show ?thesis
    by (simp add: returning_def CreateBucket_def built_def sendExpect200_world uploadReader_world case_prod_beta split: sum.splits)
next
  case (OpDeleteBucket b)
  then show ?thesis
    by (simp add: returning_def DeleteBucket_def built_def sendExpect200_world uploadReader_world case_prod_beta split: sum.splits)
next
  case (OpGetBucketDomains b)
  then show ?thesis
    by (simp add: returning_def GetBucketDomains_def built_def sendExpect200_world uploadReader_world case_prod_beta split: sum.splits)
next
  case (OpSetBucketPrivate req)
  then show ?thesis
    by (simp add: returning_def SetBucketPrivate_def built_def sendExpect200_world uploadReader_world case_prod_beta split: sum.splits)
next
  case (OpCopyFile req)
  then show ?thesis
    by (simp add: returning_def CopyFile_def built_def sendExpect200_world uploadReader_world case_prod_beta split: sum.splits)
next
  case (OpMoveFile req)
  then show ?thesis
    by (simp add: returning_def MoveFile_def built_def sendExpect200_world uploadReader_world case_prod_beta split: sum.splits)
qed


lemma failed_map [simp]: "failed (map_result f r) = failed r"
  by (cases r) auto

lemma failed_andThen: "failed r \<Longrightarrow> failed (andThen r f)"
  by (cases r) auto

lemma handle_failed [simp]: "failed (Fail x)"
  by simp

lemma sendExpect200_result:
  "fst (sendExpect200 e r w) =
   (case fst (retryLoop e r 0 None w) of
      None \<Rightarrow> Panic
    | Some (TransportError m) \<Rightarrow>
        Fail (Plain (''request failed after '' @ Itoa (RetryCount (config (snd (retryLoop e r 0 None w)))) @ '' retries: '' @ m))
    | Some (Response resp) \<Rightarrow>
        (if response.StatusCode resp \<noteq> 200 then Fail (handleErrorResponse e resp) else Ok resp))"
  by (simp add: sendExpect200_def doRequestWithRetry_def case_prod_beta split: option.splits outcome.splits sum.splits)

lemma uploadReader_result:
  "fst (uploadReader_request e rd fn req w) = Inr r \<Longrightarrow>
   fst (uploadReader e rd fn sz req w) =
   (case fst (retryLoop e r 0 None (snd (uploadReader_request e rd fn req w))) of
      None \<Rightarrow> Panic
    | Some (TransportError m) \<Rightarrow>
        Fail (Plain (''request failed after '' @
          Itoa (RetryCount (config (snd (retryLoop e r 0 None (snd (uploadReader_request e rd fn req w)))))) @ '' retries: '' @ m))
    | Some (Response resp) \<Rightarrow> uploadReader_response e resp)"
  by (simp add: uploadReader_def case_prod_beta split: option.splits outcome.splits sum.splits)

lemma uploadReader_response_failed:
  "response.StatusCode resp \<noteq> 200 \<Longrightarrow> failed (uploadReader_response e resp)"
  by (simp add: uploadReader_response_def split: sum.splits)

lemma sendExpect200_failed:
  "bad (fst (retryLoop e r 0 None w)) \<Longrightarrow> failed (fst (sendExpect200 e r w))"
  by (auto simp: sendExpect200_result bad_def split: option.splits outcome.splits)

lemma uploadReader_failed:
  "fst (uploadReader_request e rd fn req w) = Inr r \<Longrightarrow>
   bad (fst (retryLoop e r 0 None (snd (uploadReader_request e rd fn req w)))) \<Longrightarrow>
   failed (fst (uploadReader e rd fn sz req w))"
  by (auto simp: uploadReader_result bad_def uploadReader_response_failed split: option.splits outcome.splits)

lemma run_failed:
  assumes "fst (request_of e op w) = Some r"
    and "bad (fst (retryLoop e r 0 None (snd (request_of e op w))))"
  shows "failed (fst (run e op w))"
proof (cases op)
  case (OpUploadFile req)
  then show ?thesis using assms
    by (auto simp: returning_def UploadFile_def built_def case_prod_beta intro!: uploadReader_failed split: sum.splits)
next
  case (OpUploadFromReader req)
  then show ?thesis using assms
    by (auto simp: returning_def UploadFromReader_def built_def Let_def case_prod_beta intro!: uploadReader_failed split: sum.splits)
next
  case (OpUploadBytes req)
  then show ?thesis using assms
    by (auto simp: returning_def UploadBytes_def built_def case_prod_beta intro!: uploadReader_failed split: sum.splits)
next
  case OpPing
  then show ?thesis using assms
    by (auto simp: returning_def Ping_def built_def bad_def case_prod_beta split: sum.splits option.splits outcome.splits)
next
  case (OpDeleteFile b k)
  then show ?thesis using assms
    by (auto simp: returning_def DeleteFile_def built_def case_prod_beta intro!: failed_andThen sendExpect200_failed split: sum.splits)
next
  case (OpGetFileURL b k x)
  then show ?thesis using assms
    by (auto simp: returning_def GetFileURL_def built_def case_prod_beta intro!: failed_andThen sendExpect200_failed split: sum.splits)
next
  case (OpGetFileInfo b k)
  then show ?thesis using assms
    by (auto simp: returning_def GetFileInfo_def built_def case_prod_beta intro!: failed_andThen sendExpect200_failed split: sum.splits)
next
  case (OpListFiles req)
  then show ?thesis using assms
    by (auto simp: returning_def ListFiles_def built_def case_prod_beta intro!: failed_andThen sendExpect200_failed split: sum.splits)
next
  case (OpListBuckets t s)
  then show ?thesis using assms
    by (auto simp: returning_def ListBuckets_def built_def case_prod_beta intro!: failed_andThen sendExpect200_failed split: sum.splits)
next
  case (OpCreateBucket req)
  then show ?thesis using assms
    by (auto simp: returning_def CreateBucket_def built_def case_prod_beta intro!: failed_andThen sendExpect200_failed split: sum.splits)
next
  case (OpDeleteBucket b)
  then show ?thesis using assms
    by (auto simp: returning_def DeleteBucket_def built_def case_prod_beta intro!: failed_andThen sendExpect200_failed split: sum.splits)
next
  case (OpGetBucketDomains b)
  then show ?thesis using assms
    by (auto simp: returning_def GetBucketDomains_def built_def case_prod_beta intro!: failed_andThen sendExpect200_failed split: sum.splits)
next
  case (OpSetBucketPrivate req)
  then show ?thesis using assms
    by (auto simp: returning_def SetBucketPrivate_def built_def case_prod_beta intro!: failed_andThen sendExpect200_failed split: sum.splits)
next
  case (OpCopyFile req)
  then show ?thesis using assms
    by (auto simp: returning_def CopyFile_def built_def case_prod_beta intro!: failed_andThen sendExpect200_failed split: sum.splits)
next
  case (OpMoveFile req)
  then show ?thesis using assms
    by (auto simp: returning_def MoveFile_def built_def case_prod_beta intro!: failed_andThen sendExpect200_failed split: sum.splits)
qed

lemma readAll_frame:
  "config (readAll pr cs w) = config w \<and> sent (readAll pr cs w) = sent w \<and>
   slept (readAll pr cs w) = slept w \<and> batchProgress (readAll pr cs w) = batchProgress w"
  by (induction cs arbitrary: pr w) (auto simp: progressReader_Read_def Let_def)

lemma io_Copy_frame:
  "config (snd (io_Copy rd w)) = config w \<and> sent (snd (io_Copy rd w)) = sent w \<and>
   slept (snd (io_Copy rd w)) = slept w \<and> batchProgress (snd (io_Copy rd w)) = batchProgress w"
  by (cases rd) (auto simp: readAll_frame)

lemma uploadReader_request_frame:
  "config (snd (uploadReader_request e rd fn req w)) = config w \<and>
   sent (snd (uploadReader_request e rd fn req w)) = sent w \<and>
   slept (snd (uploadReader_request e rd fn req w)) = slept w \<and>
   batchProgress (snd (uploadReader_request e rd fn req w)) = batchProgress w"
  using io_Copy_frame [of rd w]
  by (auto simp: uploadReader_request_def Let_def case_prod_beta split: option.splits sum.splits)

lemma request_of_frame:
  "config (snd (request_of e op w)) = config w \<and>
   sent (snd (request_of e op w)) = sent w \<and>
   slept (snd (request_of e op w)) = slept w \<and>
   batchProgress (snd (request_of e op w)) = batchProgress w"
  by (cases op) (auto simp: uploadReader_request_frame case_prod_beta split: sum.splits)

lemma run_frame:
  "config (snd (run e op w)) = config w \<and> batchProgress (snd (run e op w)) = batchProgress w"
  using request_of_frame [of e op w] retryLoop_frame [of e _ 0 None "snd (request_of e op w)"]
  by (simp add: run_world split: option.splits)

lemma UploadFile_frame:
  "config (snd (UploadFile e req w)) = config w \<and>
   batchProgress (snd (UploadFile e req w)) = batchProgress w"
  using run_frame [of e "OpUploadFile req" w] by (simp add: returning_def case_prod_beta)

lemma BatchUpload_loop_config:
  "config (snd (BatchUpload_loop e req i files result w)) = config w"
proof (induction files arbitrary: i result w)
  case Nil
  show ?case by simp
next
  case (Cons filePath rest)
  define w1 where "w1 = (if BatchUploadRequest.OnProgress req
                then w\<lparr>batchProgress := batchProgress w @ [(i, int (length (Files req)), filePath)]\<rparr>
                else w)"
  have c1: "config w1 = config w" by (simp add: w1_def)
  have c2: "config (snd (UploadFile e (BatchUpload_uploadReq req filePath) w1)) = config w"
    using UploadFile_frame [of e _ w1] c1 by simp
  show ?case
    using c2 by (cases "UploadFile e (BatchUpload_uploadReq req filePath) w1")
      (auto simp: Let_def w1_def [symmetric] Cons.IH split: result.splits)
qed

lemma BatchUpload_config: "config (snd (BatchUpload e req w)) = config w"
  by (simp add: BatchUpload_def case_prod_beta BatchUpload_loop_config split: result.splits)


lemma attemptsFrom_all:
  "(\<And>k. retryable (Do e k r)) \<Longrightarrow> attemptsFrom e r k b = b"
  by (induction b arbitrary: k) auto

lemma bad_retryable: "retryable out \<Longrightarrow> bad (Some out)"
  by (cases out) (auto simp: bad_def)

lemma run_slept:
  "\<exists>n. length (sent (snd (run e op w))) = length (sent w) + n \<and>
       slept (snd (run e op w)) = slept w @ ramp (n - 1)"
proof (cases "fst (request_of e op w)")
  case None
  then show ?thesis
    using request_of_frame [of e op w] by (intro exI [of _ 0]) (simp add: run_world ramp_def)
next
  case (Some r)
  define w1 where "w1 = snd (request_of e op w)"
  have fr: "config w1 = config w" "sent w1 = sent w" "slept w1 = slept w"
    using request_of_frame [of e op w] by (simp_all add: w1_def)
  have w': "snd (run e op w) = snd (retryLoop e r 0 None w1)"
    using Some by (simp add: run_world w1_def)
  show ?thesis
    by (intro exI [of _ "attemptsFrom e r (length (sent w)) (nat (RetryCount (config w) + 1))"])
       (simp add: w' retryLoop_sent retryLoop_slept fr ramp_def)
qed

lemma UploadFile_slept:
  "\<exists>m. slept (snd (UploadFile e req w)) = slept w @ ramp m"
  using run_slept [of e "OpUploadFile req" w] by (auto simp: returning_def case_prod_beta)

lemma BatchUpload_loop_slept:
  "\<exists>ms. slept (snd (BatchUpload_loop e req i files result w)) = slept w @ concat (map ramp ms)
        \<and> length ms = length files"
proof (induction files arbitrary: i result w)
  case Nil
  show ?case by (intro exI [of _ "[]"]) simp
next
  case (Cons filePath rest)
  define w1 where "w1 = (if BatchUploadRequest.OnProgress req
                then w\<lparr>batchProgress := batchProgress w @ [(i, int (length (Files req)), filePath)]\<rparr>
                else w)"
  define p where "p = UploadFile e (BatchUpload_uploadReq req filePath) w1"
  have s1: "slept w1 = slept w" by (simp add: w1_def)
  obtain m where m: "slept (snd p) = slept w @ ramp m"
    using UploadFile_slept [of e "BatchUpload_uploadReq req filePath" w1] s1 by (auto simp: p_def)
  show ?case
  proof (cases "fst p")
    case Panic
    then have "snd (BatchUpload_loop e req i (filePath # rest) result w) = snd p"
      by (simp add: Let_def w1_def [symmetric] p_def [symmetric] case_prod_beta)
    then show ?thesis using m
      by (intro exI [of _ "m # replicate (length rest) 0"]) (simp add: ramp_def)
  next
    case (Fail err)
    then have eq: "snd (BatchUpload_loop e req i (filePath # rest) result w) =
      snd (BatchUpload_loop e req (i + 1) rest
        (result\<lparr>Failed := Failed result @ [\<lparr>File = filePath, Error = Error_string err\<rparr>]\<rparr>) (snd p))"
      by (simp add: Let_def w1_def [symmetric] p_def [symmetric] case_prod_beta)
    obtain ms where "slept (snd (BatchUpload_loop e req (i + 1) rest
        (result\<lparr>Failed := Failed result @ [\<lparr>File = filePath, Error = Error_string err\<rparr>]\<rparr>) (snd p))) =
        slept (snd p) @ concat (map ramp ms)" "length ms = length rest"
      using Cons.IH by blast
    then show ?thesis using m eq by (intro exI [of _ "m # ms"]) simp
  next
    case (Ok u)
    then have eq: "snd (BatchUpload_loop e req i (filePath # rest) result w) =
      snd (BatchUpload_loop e req (i + 1) rest
        (result\<lparr>BatchUploadResult.Success := BatchUploadResult.Success result @ [u]\<rparr>) (snd p))"
      by (simp add: Let_def w1_def [symmetric] p_def [symmetric] case_prod_beta)
    obtain ms where "slept (snd (BatchUpload_loop e req (i + 1) rest
        (result\<lparr>BatchUploadResult.Success := BatchUploadResult.Success result @ [u]\<rparr>) (snd p))) =
        slept (snd p) @ concat (map ramp ms)" "length ms = length rest"
      using Cons.IH by blast
    then show ?thesis using m eq by (intro exI [of _ "m # ms"]) simp
  qed
qed

lemma BatchUpload_slept:
  "\<exists>ms. slept (snd (BatchUpload e req w)) = slept w @ concat (map ramp ms) \<and>
        length ms = length (Files req)"
  using BatchUpload_loop_slept [of e req 0 "Files req" _ w]
  by (simp add: BatchUpload_def case_prod_beta split: result.splits)

lemma ramp_nth: "i < m \<Longrightarrow> int i + 1 \<le> 9223372036 \<Longrightarrow> ramp m ! i = (int i + 1) * Second"
  by (simp add: ramp_def seconds_exact)

subsection \<open>Batch upload\<close>

lemma andThen_Panic: "andThen r f = Panic \<Longrightarrow> (\<And>x. f x \<noteq> Panic) \<Longrightarrow> r = Panic"
  by (cases r) auto

lemma uploadReader_response_no_panic: "uploadReader_response e resp \<noteq> Panic"
  by (simp add: uploadReader_response_def Let_def split: sum.splits)

lemma sendExpect200_panic:
  "fst (sendExpect200 e r w) = Panic \<Longrightarrow> fst (retryLoop e r 0 None w) = None"
  by (simp add: sendExpect200_result split: option.splits outcome.splits if_splits)

lemma uploadReader_panic:
  "fst (uploadReader e rd fn sz req w) = Panic \<Longrightarrow>
   \<exists>r. fst (uploadReader_request e rd fn req w) = Inr r \<and>
       fst (retryLoop e r 0 None (snd (uploadReader_request e rd fn req w))) = None"
  by (auto simp: uploadReader_def case_prod_beta uploadReader_response_no_panic
      split: sum.splits option.splits outcome.splits)

lemma retryLoop_Some:
  "0 \<le> RetryCount (config w) \<Longrightarrow> fst (retryLoop e r 0 None w) \<noteq> None"
  using attemptsFrom_pos [of "nat (RetryCount (config w) + 1)" e r "length (sent w)"]
  by (simp add: retryLoop_result Let_def)

lemma UploadFile_no_panic:
  assumes "0 \<le> RetryCount (config w)"
  shows "fst (UploadFile e req w) \<noteq> Panic"
proof
  assume p: "fst (UploadFile e req w) = Panic"
  then obtain f n where f: "Open e (FilePath req) = Inr f" "Stat f = Inr n"
    by (auto simp: UploadFile_def split: sum.splits)
  define rd where "rd = wrapProgress (UploadRequest.OnProgress req) (Contents f) n"
  from p f have "fst (uploadReader e rd (Base (FilePath req)) n req w) = Panic"
    by (simp add: UploadFile_def rd_def)
  then obtain r where
    "fst (retryLoop e r 0 None (snd (uploadReader_request e rd (Base (FilePath req)) req w))) = None"
    using uploadReader_panic by blast
  moreover have "0 \<le> RetryCount (config (snd (uploadReader_request e rd (Base (FilePath req)) req w)))"
    using assms uploadReader_request_frame [of e rd "Base (FilePath req)" req w] by simp
  ultimately show False using retryLoop_Some by blast
qed

lemma BatchUpload_loop_result:
  "fst (BatchUpload_loop e req i files result w) = Ok res \<Longrightarrow>
   BatchUploadResult.Success res =
     BatchUploadResult.Success result @ uploaded (BatchUpload_results e req i files w) \<and>
   Failed res = Failed result @ rejected (zip files (BatchUpload_results e req i files w)) \<and>
   Total res = Total result \<and>
   length (BatchUpload_results e req i files w) = length files \<and>
   Panic \<notin> set (BatchUpload_results e req i files w)"
proof (induction files arbitrary: i result w)
  case Nil
  then show ?case by simp
next
  case (Cons filePath rest)
  define w1 where "w1 = (if BatchUploadRequest.OnProgress req
                then w\<lparr>batchProgress := batchProgress w @ [(i, int (length (Files req)), filePath)]\<rparr>
                else w)"
  define p where "p = UploadFile e (BatchUpload_uploadReq req filePath) w1"
  show ?case
  proof (cases "fst p")
    case Panic
    then show ?thesis using Cons.prems
      by (simp add: Let_def w1_def [symmetric] p_def [symmetric] case_prod_beta)
  next
    case (Fail err)
    then have "fst (BatchUpload_loop e req (i + 1) rest
        (result\<lparr>Failed := Failed result @ [\<lparr>File = filePath, Error = Error_string err\<rparr>]\<rparr>) (snd p)) = Ok res"
      using Cons.prems by (simp add: Let_def w1_def [symmetric] p_def [symmetric] case_prod_beta)
    from Cons.IH [OF this] Fail show ?thesis
      by (simp add: Let_def w1_def [symmetric] p_def [symmetric])
  next
    case (Ok u)
    then have "fst (BatchUpload_loop e req (i + 1) rest
        (result\<lparr>BatchUploadResult.Success := BatchUploadResult.Success result @ [u]\<rparr>) (snd p)) = Ok res"
      using Cons.prems by (simp add: Let_def w1_def [symmetric] p_def [symmetric] case_prod_beta)
    from Cons.IH [OF this] Ok show ?thesis
      by (simp add: Let_def w1_def [symmetric] p_def [symmetric])
  qed
qed

lemma BatchUpload_loop_not_failed:
  "\<not> failed (fst (BatchUpload_loop e req i files result w))"
proof (induction files arbitrary: i result w)
  case Nil
  show ?case by simp
next
  case (Cons filePath rest)
  show ?case
    by (simp add: Let_def case_prod_beta Cons.IH split: result.splits)
qed

lemma BatchUpload_loop_returns:
  "0 \<le> RetryCount (config w) \<Longrightarrow> \<exists>res. fst (BatchUpload_loop e req i files result w) = Ok res"
proof (induction files arbitrary: i result w)
  case Nil
  show ?case by simp
next
  case (Cons filePath rest)
  define w1 where "w1 = (if BatchUploadRequest.OnProgress req
                then w\<lparr>batchProgress := batchProgress w @ [(i, int (length (Files req)), filePath)]\<rparr>
                else w)"
  define p where "p = UploadFile e (BatchUpload_uploadReq req filePath) w1"
  have c1: "config w1 = config w" by (simp add: w1_def)
  have np: "fst p \<noteq> Panic"
    unfolding p_def using UploadFile_no_panic [of w1] Cons.prems c1 by simp
  have c2: "0 \<le> RetryCount (config (snd p))"
    unfolding p_def using UploadFile_frame [of e _ w1] c1 Cons.prems by simp
  show ?case
    using np Cons.IH [OF c2]
    by (cases "fst p") (simp_all add: Let_def w1_def [symmetric] p_def [symmetric] case_prod_beta)
qed

lemma uploaded_rejected_length:
  "Panic \<notin> set rs \<Longrightarrow> length fs = length rs \<Longrightarrow>
   length (uploaded rs) + length (rejected (zip fs rs)) = length rs"
proof (induction rs arbitrary: fs)
  case Nil
  show ?case by simp
next
  case (Cons r rs)
  then obtain f fs' where fs: "fs = f # fs'" by (cases fs) auto
  with Cons show ?case by (cases r) auto
qed

lemma rejected_subseq: "subseq (map File (rejected (zip fs rs))) fs"
proof (induction rs arbitrary: fs)
  case Nil
  show ?case by simp
next
  case (Cons r rs)
  show ?case
  proof (cases fs)
    case Nil
    then show ?thesis by simp
  next
    case (Cons f fs')
    then show ?thesis using Cons.IH [of fs'] by (cases r) (auto)
  qed
qed

lemma io_Copy_fst: "fst (io_Copy rd w) = copied (source rd)"
  by (cases rd) auto

lemma source_wrapProgress [simp]: "source (wrapProgress c r n) = r"
  by (simp add: wrapProgress_def)

lemma uploadReader_response_success:
  "response.StatusCode resp = 200 \<Longrightarrow> RespBody resp = Inr b \<Longrightarrow> UnmarshalUpload e b = Inr a \<Longrightarrow>
   apiResp.Success a \<or> Code a = 200 \<Longrightarrow> uploadReader_response e resp = Ok (apiResp.Data a)"
  by (auto simp: uploadReader_response_def Let_def)

lemma uploadReader_response_failure:
  "response.StatusCode resp = 200 \<Longrightarrow> RespBody resp = Inr b \<Longrightarrow> UnmarshalUpload e b = Inr a \<Longrightarrow>
   \<not> apiResp.Success a \<Longrightarrow> Code a \<noteq> 200 \<Longrightarrow>
   uploadReader_response e resp =
     Fail (API \<lparr>APIError.StatusCode = 200,
                Message = (if Message a = [] then Msg a else Message a), Details = []\<rparr>)"
  by (auto simp: uploadReader_response_def Let_def)

lemma retryLoop_once:
  assumes "0 \<le> RetryCount (config w)" "Do e (length (sent w)) r = Response resp"
    "response.StatusCode resp < 500"
  shows "retryLoop e r 0 None w = (Some (Response resp), w\<lparr>sent := sent w @ [r]\<rparr>)"
  using assms by (subst retryLoop.simps) (simp add: Let_def)

lemma UploadFile_answered:
  assumes f: "Open e (FilePath req) = Inr f" "Stat f = Inr n" "End (Contents f) = EOF"
    and q: "ParseURL e (TrimRight (BaseURL (config w)) @ ''/api/public/upload'') = Inr q"
    and rc: "0 \<le> RetryCount (config w)"
    and d: "\<forall>r. Do e (length (sent w)) r = Response resp"
    and st: "response.StatusCode resp < 500"
  shows "fst (UploadFile e req w) = uploadReader_response e resp \<and>
         length (sent (snd (UploadFile e req w))) = Suc (length (sent w)) \<and>
         config (snd (UploadFile e req w)) = config w \<and>
         batchProgress (snd (UploadFile e req w)) = batchProgress w"
proof -
  define rd where "rd = wrapProgress (UploadRequest.OnProgress req) (Contents f) n"
  define p where "p = uploadReader_request e rd (Base (FilePath req)) req w"
  have cp: "fst (io_Copy rd w) = (fst (copied (Contents f)), None)"
    using f by (simp add: io_Copy_fst rd_def copied_def)
  have fr: "config (snd (io_Copy rd w)) = config w"
    using io_Copy_frame [of rd w] by simp
  obtain r where r: "fst p = Inr r"
    using cp fr q
    by (cases "io_Copy rd w") (auto simp: p_def uploadReader_request_def NewRequest_def Let_def)
  have pf: "config (snd p) = config w" "sent (snd p) = sent w" "batchProgress (snd p) = batchProgress w"
    using uploadReader_request_frame [of e rd "Base (FilePath req)" req w] by (simp_all add: p_def)
  have loop: "retryLoop e r 0 None (snd p) = (Some (Response resp), (snd p)\<lparr>sent := sent (snd p) @ [r]\<rparr>)"
    using rc d st pf by (intro retryLoop_once) simp_all
  have U: "UploadFile e req w = uploadReader e rd (Base (FilePath req)) n req w"
    using f by (simp add: UploadFile_def rd_def)
  have "fst (UploadFile e req w) = uploadReader_response e resp"
    using r loop by (simp add: U uploadReader_result [OF r [unfolded p_def]] p_def [symmetric])
  moreover have "snd (UploadFile e req w) = (snd p)\<lparr>sent := sent (snd p) @ [r]\<rparr>"
    using r loop by (simp add: U uploadReader_world p_def [symmetric])
  ultimately show ?thesis using pf by simp
qed

section \<open>The claims\<close>

subsection \<open>NewClient\<close>

text \<open>
  Claim C9. For every \<open>Config\<close> whose \<open>RetryCount\<close> is 0 or whose \<open>Timeout\<close> is 0,
  \<open>NewClient\<close> overwrites that field with the default (3 retries, 30 seconds) in the
  caller's \<open>Config\<close> object itself, the \<open>config\<close> of the world; so after \<open>NewClient\<close>
  neither field is ever 0, whatever the caller supplied, and the \<open>http.Client\<close> carries the
  same non-zero timeout.
\<close>

theorem NewClient_zero_is_unset:
  "(RetryCount (config w) = 0 \<longrightarrow> RetryCount (config (snd (NewClient w))) = 3) \<and>
   (Timeout (config w) = 0 \<longrightarrow> Timeout (config (snd (NewClient w))) = 30 * Second) \<and>
   RetryCount (config (snd (NewClient w))) \<noteq> 0 \<and>
   Timeout (config (snd (NewClient w))) \<noteq> 0 \<and>
   httpClient_Timeout (fst (NewClient w)) = Timeout (config (snd (NewClient w)))"
  by (simp add: NewClient_def Let_def seconds_30 Second_def)

theorem NewClient_zero_is_unset_witness:
  "RetryCount (config world0) = 0 \<and> Timeout (config world0) = 0 \<and>
   RetryCount (config (snd (NewClient world0))) = 3 \<and>
   Timeout (config (snd (NewClient world0))) = 30000000000"
  using NewClient_zero_is_unset [of world0]
  by (simp add: world0_def config0_def Second_def)

text \<open>
  Claim C5. \<open>NewClient\<close> gives each unset field of the config its default (\<open>Timeout\<close> 30
  seconds, \<open>RetryCount\<close> 3, \<open>UserAgent\<close> the fixed default string) and leaves every other
  field, and every field already set, as it was. The defaults are applied once: applying
  \<open>NewClient\<close> again changes nothing, and no later operation, single-request or batch,
  changes the config.
\<close>

theorem NewClient_defaults_once:
  "config (snd (NewClient w)) =
     (config w)\<lparr>Timeout := (if Timeout (config w) = 0 then 30 * Second else Timeout (config w)),
                RetryCount := (if RetryCount (config w) = 0 then 3 else RetryCount (config w)),
                UserAgent := (if UserAgent (config w) = [] then DEFAULT_USER_AGENT
                              else UserAgent (config w))\<rparr> \<and>
   config (snd (NewClient (snd (NewClient w)))) = config (snd (NewClient w)) \<and>
   config (snd (run e op w')) = config w' \<and>
   config (snd (BatchUpload e req w')) = config w'"
  by (simp add: NewClient_def Let_def seconds_30 Second_def run_frame BatchUpload_config
        DEFAULT_USER_AGENT_def)


theorem NewClient_defaults_once_witness:
  "config (snd (NewClient world0)) =
     \<lparr>BaseURL = ''http://localhost:7075/'', APIKey = ''key'', APISecret = [],
      Timeout = 30000000000, RetryCount = 3, UserAgent = ''LingStorage-SDK/1.0.0''\<rparr> \<and>
   config (snd (run env500 OpPing (snd (NewClient world0)))) = config (snd (NewClient world0))"
  using NewClient_defaults_once [of world0 env500 OpPing "snd (NewClient world0)" twoFiles]
  by (simp add: world0_def config0_def Second_def DEFAULT_USER_AGENT_def)

subsection \<open>Retries\<close>

text \<open>
  Claim C2, as amended. For every operation that issues a single request (all but
  \<open>BatchUpload\<close>, which spends the budget anew on each file) and every config with
  \<open>RetryCount \<ge> 0\<close>: an operation that fails before it has a request sends nothing; otherwise
  it hands the same request to the transport \<open>n\<close> times with \<open>1 \<le> n \<le> RetryCount + 1\<close>;
  attempt \<open>i\<close> is followed by another exactly when it ended in a transport failure or a
  status of 500 or more and \<open>i < RetryCount\<close>; against a server whose every answer is
  such, \<open>n = RetryCount + 1\<close> and the call fails; against a server that answers with a
  status in [400, 500), \<open>n = 1\<close> and the call fails.
\<close>

theorem retry_attempts:
  assumes rc: "0 \<le> RetryCount (config w)"
  shows "case fst (request_of e op w) of
           None \<Rightarrow> sent (snd (run e op w)) = sent w
         | Some r \<Rightarrow>
             (\<exists>n\<ge>1. sent (snd (run e op w)) = sent w @ replicate n r \<and>
                int n \<le> RetryCount (config w) + 1 \<and>
                (\<forall>i<n. (Suc i < n) =
                   (retryable (Do e (length (sent w) + i) r) \<and> int i < RetryCount (config w))) \<and>
                ((\<forall>k. retryable (Do e k r)) \<longrightarrow>
                   int n = RetryCount (config w) + 1 \<and> failed (fst (run e op w))) \<and>
                ((\<forall>k. \<exists>resp. Do e k r = Response resp \<and> 400 \<le> response.StatusCode resp
                        \<and> response.StatusCode resp < 500) \<longrightarrow>
                   n = 1 \<and> failed (fst (run e op w))))"
proof (cases "fst (request_of e op w)")
  case None
  then show ?thesis using request_of_frame [of e op w] by (simp add: run_world)
next
  case (Some r)
  define w1 where "w1 = snd (request_of e op w)"
  define b where "b = nat (RetryCount (config w) + 1)"
  define k where "k = length (sent w)"
  define n where "n = attemptsFrom e r k b"
  have fr: "config w1 = config w" "sent w1 = sent w"
    using request_of_frame [of e op w] by (simp_all add: w1_def)
  have bpos: "0 < b" and bint: "int b = RetryCount (config w) + 1"
    using rc by (simp_all add: b_def)
  have w': "snd (run e op w) = snd (retryLoop e r 0 None w1)"
    using Some by (simp add: run_world w1_def)
  have sent: "sent (snd (run e op w)) = sent w @ replicate n r"
    by (simp add: w' retryLoop_sent fr n_def b_def k_def)
  have npos: "1 \<le> n"
    using attemptsFrom_pos [OF bpos, of e r k] by (simp add: n_def)
  have nle: "int n \<le> RetryCount (config w) + 1"
    using attemptsFrom_le [of e r k b] bint by (simp add: n_def)
  have nxt: "\<forall>i<n. (Suc i < n) =
      (retryable (Do e (length (sent w) + i) r) \<and> int i < RetryCount (config w))"
  proof (intro allI impI)
    fix i assume "i < n"
    then have "(Suc i < n) = (retryable (Do e (k + i) r) \<and> Suc i < b)"
      unfolding n_def by (rule attemptsFrom_next)
    moreover have "(Suc i < b) = (int i < RetryCount (config w))"
      using bint by linarith
    ultimately show "(Suc i < n) =
      (retryable (Do e (length (sent w) + i) r) \<and> int i < RetryCount (config w))"
      by (simp add: k_def)
  qed
  have res: "fst (retryLoop e r 0 None w1) = Some (Do e (k + n - 1) r)"
    using npos by (simp add: retryLoop_result fr n_def b_def k_def Let_def)
  have fails: "failed (fst (run e op w))" if "bad (Some (Do e (k + n - 1) r))"
    using run_failed [OF Some] that res by (simp add: w1_def)
  have all5: "int n = RetryCount (config w) + 1 \<and> failed (fst (run e op w))"
    if a: "\<forall>k. retryable (Do e k r)"
  proof -
    have "n = b" using a by (simp add: n_def attemptsFrom_all)
    moreover have "bad (Some (Do e (k + n - 1) r))" using a by (simp add: bad_retryable)
    ultimately show ?thesis using bint fails by simp
  qed
  have all4: "n = 1 \<and> failed (fst (run e op w))"
    if a: "\<forall>k. \<exists>resp. Do e k r = Response resp \<and> 400 \<le> response.StatusCode resp
                        \<and> response.StatusCode resp < 500"
  proof -
    from a obtain resp where d: "Do e k r = Response resp" "400 \<le> response.StatusCode resp"
      "response.StatusCode resp < 500" by blast
    obtain b' where b': "b = Suc b'" using bpos by (cases b) auto
    have n1: "n = 1" using d by (simp add: n_def b')
    have "bad (Some (Do e (k + n - 1) r))" using d n1 by (simp add: bad_def)
    then show ?thesis using n1 fails by simp
  qed
  show ?thesis
    using Some sent npos nle nxt all5 all4 by auto
qed


text \<open>The theorem at a client with three retries pinging a server that always answers 500:
  four requests, then an error.\<close>

theorem retry_attempts_witness:
  "0 \<le> RetryCount (config (worldOf 3)) \<and>
   length (sent (snd (run env500 OpPing (worldOf 3)))) = 4 \<and>
   failed (fst (run env500 OpPing (worldOf 3)))"
  using retry_attempts [of "worldOf 3" env500 OpPing]
  by (simp add: scenario_defs operation_defs retryLoop.simps Let_def)

text \<open>The claim as stated, for every operation and every config, fails twice. A config
  with \<open>RetryCount = -1\<close> passes through \<open>NewClient\<close> unchanged, and with it a server
  answering 400 is contacted not once but never (the loop body does not run, and the call
  then panics on the nil response). And \<open>BatchUpload\<close> of two files with \<open>RetryCount = 1\<close>
  against a server always answering 500 makes four attempts, more than \<open>RetryCount + 1 = 2\<close>.\<close>

theorem retry_attempts_counterexample:
  "snd (NewClient (worldOf (- 1))) = worldOf (- 1) \<and>
   RetryCount (config (worldOf (- 1))) = - 1 \<and>
   sent (snd (run env400 OpPing (worldOf (- 1)))) = [] \<and>
   fst (run env400 OpPing (worldOf (- 1))) = Panic \<and>
   RetryCount (config (worldOf 1)) + 1 = 2 \<and>
   length (sent (snd (BatchUpload env500 twoFiles (worldOf 1)))) = 4"
  by (simp add: NewClient_def scenario_defs operation_defs retryLoop.simps Let_def
        seconds_def Second_def)

text \<open>
  Claim C8. In every single-request operation that makes \<open>n\<close> attempts, the sleeps of the
  call are \<open>ramp (n - 1)\<close>: one between each attempt \<open>i\<close> and the next, of
  \<open>time.Duration(i+1) * time.Second\<close>, with neither jitter nor cap. The sleeps of a
  \<open>BatchUpload\<close> are one such ramp per file. That product is exactly \<open>i + 1\<close> seconds for
  every attempt index whose delay a \<open>time.Duration\<close> can hold, \<open>i + 1 \<le> 9223372036\<close>.
\<close>

theorem backoff_linear:
  "(\<exists>n. length (sent (snd (run e op w))) = length (sent w) + n \<and>
        slept (snd (run e op w)) = slept w @ ramp (n - 1)) \<and>
   (\<exists>ms. length ms = length (Files req) \<and>
         slept (snd (BatchUpload e req w)) = slept w @ concat (map ramp ms)) \<and>
   (\<forall>i<m. int i + 1 \<le> 9223372036 \<longrightarrow> ramp m ! i = (int i + 1) * Second)"
  using run_slept [of e op w] BatchUpload_slept [of e req w] ramp_nth by blast


text \<open>The theorem at a client with three retries pinging a server that always answers 500:
  it sleeps one, two and three seconds.\<close>

theorem backoff_linear_witness:
  "slept (snd (run env500 OpPing (worldOf 3))) = [1000000000, 2000000000, 3000000000] \<and>
   ramp 3 ! 2 = 3 * Second"
  using backoff_linear [of env500 OpPing "worldOf 3" twoFiles 3]
  by (simp add: scenario_defs operation_defs retryLoop.simps Let_def seconds_def Second_def)


subsection \<open>Batch upload\<close>

text \<open>
  Claim C10. Whenever \<open>BatchUpload\<close> returns, its result has \<open>Total\<close> equal to the number
  of input files and \<open>len(Success) + len(Failed)\<close> equal to it too: the loop makes one
  \<open>UploadFile\<close> call per file, \<open>Success\<close> holds the values of the successful calls and
  \<open>Failed\<close> the path and message of the failed ones, both in the order of the input list.
  The error it returns is never non-nil; and it does return whenever \<open>RetryCount \<ge> 0\<close>
  (with a negative retry count an upload that reaches the network panics).
\<close>

theorem BatchUpload_accounts_for_every_file:
  "(\<forall>res. fst (BatchUpload e req w) = Ok res \<longrightarrow>
      Total res = int (length (Files req)) \<and>
      length (BatchUploadResult.Success res) + length (Failed res) = length (Files req) \<and>
      length (BatchUpload_results e req 0 (Files req) w) = length (Files req) \<and>
      BatchUploadResult.Success res = uploaded (BatchUpload_results e req 0 (Files req) w) \<and>
      Failed res = rejected (zip (Files req) (BatchUpload_results e req 0 (Files req) w)) \<and>
      subseq (map File (Failed res)) (Files req)) \<and>
   \<not> failed (fst (BatchUpload e req w)) \<and>
   (0 \<le> RetryCount (config w) \<longrightarrow> (\<exists>res. fst (BatchUpload e req w) = Ok res))"
proof (intro conjI allI impI)
  fix res assume ok: "fst (BatchUpload e req w) = Ok res"
  define r0 where "r0 = \<lparr>BatchUploadResult.Success = [], Failed = [], Total = int (length (Files req))\<rparr>"
  from ok have "fst (BatchUpload_loop e req 0 (Files req) r0 w) = Ok res"
    by (simp add: BatchUpload_def r0_def case_prod_beta split: result.splits)
  note L = BatchUpload_loop_result [OF this]
  show "Total res = int (length (Files req))" using L by (simp add: r0_def)
  show "length (BatchUpload_results e req 0 (Files req) w) = length (Files req)" using L by simp
  show S: "BatchUploadResult.Success res = uploaded (BatchUpload_results e req 0 (Files req) w)"
    using L by (simp add: r0_def)
  show F: "Failed res = rejected (zip (Files req) (BatchUpload_results e req 0 (Files req) w))"
    using L by (simp add: r0_def)
  show "length (BatchUploadResult.Success res) + length (Failed res) = length (Files req)"
    using L uploaded_rejected_length [of "BatchUpload_results e req 0 (Files req) w" "Files req"]
    by (simp add: S F)
  show "subseq (map File (Failed res)) (Files req)"
    by (simp add: F rejected_subseq)
next
  show "\<not> failed (fst (BatchUpload e req w))"
    using BatchUpload_loop_not_failed [of e req 0 "Files req"
        "\<lparr>BatchUploadResult.Success = [], Failed = [], Total = int (length (Files req))\<rparr>" w]
    by (auto simp: BatchUpload_def case_prod_beta split: result.splits)
next
  assume "0 \<le> RetryCount (config w)"
  from BatchUpload_loop_returns [OF this, of e req 0 "Files req"
        "\<lparr>BatchUploadResult.Success = [], Failed = [], Total = int (length (Files req))\<rparr>"]
  show "\<exists>res. fst (BatchUpload e req w) = Ok res"
    by (auto simp: BatchUpload_def case_prod_beta split: result.splits)
qed


theorem BatchUpload_accounts_for_every_file_witness:
  "0 \<le> RetryCount (config (worldOf 3)) \<and>
   fst (BatchUpload envSecondFails threeFiles (worldOf 3)) =
     Ok \<lparr>BatchUploadResult.Success = [stored, stored],
         Failed = [\<lparr>File = ''/data/b.txt'', Error = ''ling storage api error 200: quota exceeded''\<rparr>],
         Total = 3\<rparr>"
  using BatchUpload_accounts_for_every_file [of envSecondFails threeFiles "worldOf 3"]
  by (simp add: scenario_defs operation_defs retryLoop.simps Let_def Itoa_200
        progressReader_Read_def)

text \<open>
  Claim C3. A batch of three files that open and read to their end, with an observer, a
  non-negative retry count and an upload URL that parses; the server answers the first and
  third upload with status 200 and a success envelope (\<open>success\<close> true or \<open>code\<close> 200) and
  the second with status 200 and a failure envelope. Then \<open>BatchUpload\<close> returns, with no
  error, \<open>Total = 3\<close>, the two decoded results in \<open>Success\<close> and one entry in \<open>Failed\<close>
  with the second file's path and the message of its \<open>APIError\<close>; and the batch observer is
  called four times, with completed 0, 1, 2 before the items and 3 of 3 at the end.
\<close>

theorem BatchUpload_second_of_three_fails:
  assumes files: "Files req = [f1, f2, f3]"
    and obs: "BatchUploadRequest.OnProgress req"
    and rc: "0 \<le> RetryCount (config w)"
    and o1: "Open e f1 = Inr F1" "Stat F1 = Inr n1" "End (Contents F1) = EOF"
    and o2: "Open e f2 = Inr F2" "Stat F2 = Inr n2" "End (Contents F2) = EOF"
    and o3: "Open e f3 = Inr F3" "Stat F3 = Inr n3" "End (Contents F3) = EOF"
    and q: "ParseURL e (TrimRight (BaseURL (config w)) @ ''/api/public/upload'') = Inr q"
    and d1: "\<forall>r. Do e (length (sent w)) r = Response \<lparr>response.StatusCode = 200, RespBody = Inr b1\<rparr>"
    and d2: "\<forall>r. Do e (length (sent w) + 1) r = Response \<lparr>response.StatusCode = 200, RespBody = Inr b2\<rparr>"
    and d3: "\<forall>r. Do e (length (sent w) + 2) r = Response \<lparr>response.StatusCode = 200, RespBody = Inr b3\<rparr>"
    and a1: "UnmarshalUpload e b1 = Inr a1" "apiResp.Success a1 \<or> Code a1 = 200"
    and a2: "UnmarshalUpload e b2 = Inr a2" "\<not> apiResp.Success a2" "Code a2 \<noteq> 200"
    and a3: "UnmarshalUpload e b3 = Inr a3" "apiResp.Success a3 \<or> Code a3 = 200"
  shows "fst (BatchUpload e req w) =
           Ok \<lparr>BatchUploadResult.Success = [apiResp.Data a1, apiResp.Data a3],
               Failed = [\<lparr>File = f2,
                          Error = ''ling storage api error 200: '' @
                                  (if Message a2 = [] then Msg a2 else Message a2)\<rparr>],
               Total = 3\<rparr> \<and>
         batchProgress (snd (BatchUpload e req w)) =
           batchProgress w @ [(0, 3, f1), (1, 3, f2), (2, 3, f3), (3, 3, [])]"
proof -
  define wa where "wa = w\<lparr>batchProgress := batchProgress w @ [(0, 3, f1)]\<rparr>"
  define pa where "pa = UploadFile e (BatchUpload_uploadReq req f1) wa"
  define wb where "wb = (snd pa)\<lparr>batchProgress := batchProgress (snd pa) @ [(1, 3, f2)]\<rparr>"
  define pb where "pb = UploadFile e (BatchUpload_uploadReq req f2) wb"
  define wc where "wc = (snd pb)\<lparr>batchProgress := batchProgress (snd pb) @ [(2, 3, f3)]\<rparr>"
  define pc where "pc = UploadFile e (BatchUpload_uploadReq req f3) wc"
  let ?r1 = "\<lparr>response.StatusCode = 200, RespBody = Inr b1\<rparr>"
  let ?r2 = "\<lparr>response.StatusCode = 200, RespBody = Inr b2\<rparr>"
  let ?r3 = "\<lparr>response.StatusCode = 200, RespBody = Inr b3\<rparr>"
  have A: "fst pa = uploadReader_response e ?r1 \<and> length (sent (snd pa)) = Suc (length (sent wa)) \<and>
           config (snd pa) = config wa \<and> batchProgress (snd pa) = batchProgress wa"
    unfolding pa_def
    by (rule UploadFile_answered [where f = F1 and n = n1 and q = q])
       (use o1 q rc d1 in \<open>simp_all add: wa_def BatchUpload_uploadReq_def\<close>)
  have B: "fst pb = uploadReader_response e ?r2 \<and> length (sent (snd pb)) = Suc (length (sent wb)) \<and>
           config (snd pb) = config wb \<and> batchProgress (snd pb) = batchProgress wb"
    unfolding pb_def
    by (rule UploadFile_answered [where f = F2 and n = n2 and q = q])
       (use o2 q rc d2 A in \<open>simp_all add: wa_def wb_def BatchUpload_uploadReq_def\<close>)
  have C: "fst pc = uploadReader_response e ?r3 \<and> length (sent (snd pc)) = Suc (length (sent wc)) \<and>
           config (snd pc) = config wc \<and> batchProgress (snd pc) = batchProgress wc"
    unfolding pc_def
    by (rule UploadFile_answered [where f = F3 and n = n3 and q = q])
       (use o3 q rc d3 A B in \<open>simp_all add: wa_def wb_def wc_def BatchUpload_uploadReq_def\<close>)
  have ra: "fst pa = Ok (apiResp.Data a1)"
    using A a1 by (simp add: uploadReader_response_success [where b = b1 and a = a1])
  have rb: "fst pb = Fail (API \<lparr>APIError.StatusCode = 200,
                Message = (if Message a2 = [] then Msg a2 else Message a2), Details = []\<rparr>)"
    using B a2 by (simp add: uploadReader_response_failure [where b = b2 and a = a2])
  have rc': "fst pc = Ok (apiResp.Data a3)"
    using C a3 by (simp add: uploadReader_response_success [where b = b3 and a = a3])
  have loop: "BatchUpload_loop e req 0 [f1, f2, f3]
        \<lparr>BatchUploadResult.Success = [], Failed = [], Total = 3\<rparr> w =
      (Ok \<lparr>BatchUploadResult.Success = [apiResp.Data a1, apiResp.Data a3],
               Failed = [\<lparr>File = f2,
                          Error = ''ling storage api error 200: '' @
                                  (if Message a2 = [] then Msg a2 else Message a2)\<rparr>],
               Total = 3\<rparr>, snd pc)"
    using ra rb rc' obs files
    by (simp add: Let_def case_prod_beta wa_def [symmetric] pa_def [symmetric]
        wb_def [symmetric] pb_def [symmetric] wc_def [symmetric] pc_def [symmetric] Itoa_200)
  have bp: "batchProgress (snd pc) = batchProgress w @ [(0, 3, f1), (1, 3, f2), (2, 3, f3)]"
    using A B C by (simp add: wa_def wb_def wc_def)
  show ?thesis
    using loop bp obs files by (simp add: BatchUpload_def)
qed


theorem BatchUpload_second_of_three_fails_witness:
  "Files threeFiles = [''/data/a.txt'', ''/data/b.txt'', ''/data/c.txt''] \<and>
   fst (BatchUpload envSecondFails threeFiles (worldOf 3)) =
     Ok \<lparr>BatchUploadResult.Success = [stored, stored],
         Failed = [\<lparr>File = ''/data/b.txt'', Error = ''ling storage api error 200: quota exceeded''\<rparr>],
         Total = 3\<rparr> \<and>
   batchProgress (snd (BatchUpload envSecondFails threeFiles (worldOf 3))) =
     [(0, 3, ''/data/a.txt''), (1, 3, ''/data/b.txt''), (2, 3, ''/data/c.txt''), (3, 3, [])]"
proof -
  let ?F = "\<lparr>Stat = Inr 5,
             Contents = \<lparr>Chunks = [''hel'', ''lo''], Last = [], End = EOF, Seeker = Some 5\<rparr>\<rparr>"
  let ?ok = "\<lparr>apiResp.Success = False, apiResp.Data = stored, Message = [], Code = 200,
              Msg = ''File uploaded successfully''\<rparr>"
  let ?no = "\<lparr>apiResp.Success = False, apiResp.Data = noUploadResult, Message = [], Code = 507,
              Msg = ''quota exceeded''\<rparr>"
  have "fst (BatchUpload envSecondFails threeFiles (worldOf 3)) =
           Ok \<lparr>BatchUploadResult.Success = [apiResp.Data ?ok, apiResp.Data ?ok],
               Failed = [\<lparr>File = ''/data/b.txt'',
                          Error = ''ling storage api error 200: '' @
                                  (if Message ?no = [] then Msg ?no else Message ?no)\<rparr>],
               Total = 3\<rparr> \<and>
         batchProgress (snd (BatchUpload envSecondFails threeFiles (worldOf 3))) =
           batchProgress (worldOf 3) @
           [(0, 3, ''/data/a.txt''), (1, 3, ''/data/b.txt''), (2, 3, ''/data/c.txt''), (3, 3, [])]"
    by (rule BatchUpload_second_of_three_fails
          [where ?F1.0 = ?F and ?F2.0 = ?F and ?F3.0 = ?F and ?n1.0 = 5 and ?n2.0 = 5 and ?n3.0 = 5
             and q = "[]" and ?b1.0 = okBody and ?b2.0 = failBody and ?b3.0 = okBody])
       (simp_all add: scenario_defs)
  then show ?thesis by (simp add: scenario_defs)
qed

end
